theory Spec2Isabelle
  imports Complex_Main "HOL-Library.List_Lexorder"
begin

section \<open>Values that travel through the pipeline\<close>

text \<open>
  The two scripts (\<^verbatim>\<open>data_migration_postgres_to_mongo.py\<close> and \<^verbatim>\<open>scriptrans.py\<close>) read rows
  from PostgreSQL through psycopg2 and write them to MongoDB. A cell of a row is a Python
  object; the kinds the driver hands over for the columns of the query are modelled by
  \<open>pyval\<close>. \<open>datetime.date\<close> and \<open>datetime.datetime\<close> carry their calendar fields;
  date-times are naive (no \<open>tzinfo\<close>), as psycopg2 returns them for a column of type
  \<^verbatim>\<open>timestamp without time zone\<close>. \<open>PTime\<close> is a \<open>datetime.time\<close> (hour, minute, second,
  microsecond): a value that is neither a date nor one of text, number, boolean, null.
\<close>

record py_date =
  year :: nat
  month :: nat
  day :: nat

record py_datetime =
  dt_year :: nat
  dt_month :: nat
  dt_day :: nat
  dt_hour :: nat
  dt_minute :: nat
  dt_second :: nat
  dt_microsecond :: nat

datatype pyval =
    PNone
  | PBool bool
  | PInt int
  | PFloat real
  | PStr string
  | PDate py_date
  | PDateTime py_datetime
  | PTime nat nat nat nat

subsection \<open>\<open>isoformat\<close> of the standard library\<close>

text \<open>
  \<^verbatim>\<open>date.isoformat()\<close> is \<^verbatim>\<open>"%04d-%02d-%02d" % (year, month, day)\<close>;
  \<^verbatim>\<open>datetime.isoformat()\<close> is the date part, the separator \<^verbatim>\<open>T\<close>,
  \<^verbatim>\<open>"%02d:%02d:%02d"\<close> and, when the microsecond is not zero, \<^verbatim>\<open>".%06d"\<close>.
\<close>

definition digit_char :: "nat \<Rightarrow> char" where
  "digit_char d = ''0123456789'' ! (d mod 10)"

fun str_of_nat :: "nat \<Rightarrow> string" where
  "str_of_nat n = (if n < 10 then [digit_char n] else str_of_nat (n div 10) @ [digit_char (n mod 10)])"

declare str_of_nat.simps [simp del]

definition zero_padded :: "nat \<Rightarrow> nat \<Rightarrow> string" where
  "zero_padded w n = (let s = str_of_nat n in replicate (w - length s) (CHR ''0'') @ s)"

definition date_isoformat :: "py_date \<Rightarrow> string" where
  "date_isoformat d =
     zero_padded 4 (year d) @ ''-'' @ zero_padded 2 (month d) @ ''-'' @ zero_padded 2 (day d)"

definition datetime_isoformat :: "py_datetime \<Rightarrow> string" where
  "datetime_isoformat t =
     zero_padded 4 (dt_year t) @ ''-'' @ zero_padded 2 (dt_month t) @ ''-'' @ zero_padded 2 (dt_day t)
     @ ''T'' @ zero_padded 2 (dt_hour t) @ '':'' @ zero_padded 2 (dt_minute t) @ '':''
     @ zero_padded 2 (dt_second t)
     @ (if dt_microsecond t \<noteq> 0 then ''.'' @ zero_padded 6 (dt_microsecond t) else [])"

text \<open>\<^verbatim>\<open>isinstance(value, (datetime, date))\<close>.\<close>

fun isinstance_date :: "pyval \<Rightarrow> bool" where
  "isinstance_date (PDate d) = True"
| "isinstance_date (PDateTime t) = True"
| "isinstance_date v = False"

text \<open>
  \<^verbatim>\<open>value.isoformat()\<close>, called only under the \<open>isinstance\<close> test; on the other values
  (which have no such method) the model returns the value itself.
\<close>

fun isoformat :: "pyval \<Rightarrow> pyval" where
  "isoformat (PDate d) = PStr (date_isoformat d)"
| "isoformat (PDateTime t) = PStr (datetime_isoformat t)"
| "isoformat v = v"

section \<open>Records: Python dictionaries\<close>

text \<open>
  A record is a \<open>dict\<close> from column name to value. A \<open>dict\<close> keeps its keys in insertion
  order and holds each key once, so it is an association list whose keys are distinct
  (\<open>is_dict\<close>). \<open>setitem d k v\<close> is \<^verbatim>\<open>d[k] = v\<close>: the value of an existing key is replaced in
  its slot, a new key is appended. \<open>py_dict\<close> is \<^verbatim>\<open>dict(pairs)\<close>, which stores the pairs one
  after the other.
\<close>

type_synonym 'v dict = "(string \<times> 'v) list"

type_synonym reservation_record = "pyval dict"

definition is_dict :: "'v dict \<Rightarrow> bool" where
  "is_dict d = distinct (map fst d)"

fun setitem :: "'v dict \<Rightarrow> string \<Rightarrow> 'v \<Rightarrow> 'v dict" where
  "setitem [] k v = [(k, v)]"
| "setitem (p # ps) k v = (if fst p = k then (k, v) # ps else p # setitem ps k v)"

definition py_dict :: "(string \<times> 'v) list \<Rightarrow> 'v dict" where
  "py_dict pairs = fold (\<lambda>(k, v) d. setitem d k v) pairs []"

definition keys :: "'v dict \<Rightarrow> string list" where
  "keys d = map fst d"

definition dict_values :: "'v dict \<Rightarrow> 'v list" where
  "dict_values d = map snd d"

definition getitem :: "'v dict \<Rightarrow> string \<Rightarrow> 'v option" where
  "getitem d k = map_of d k"

lemma length_setitem:
  "length (setitem d k v) = (if k \<in> fst ` set d then length d else Suc (length d))"
  by (induction d) auto

lemma keys_setitem_present: "k \<in> fst ` set d \<Longrightarrow> map fst (setitem d k v) = map fst d"
  by (induction d) auto

lemma setitem_nth:
  "distinct (map fst d) \<Longrightarrow> i < length d \<Longrightarrow> fst (d ! i) = k \<Longrightarrow> setitem d k v = d[i := (k, v)]"
proof (induction d arbitrary: i)
  case Nil
  then show ?case by simp
next
  case (Cons p ps)
  show ?case
  proof (cases i)
    case 0
    with Cons.prems show ?thesis by simp
  next
    case (Suc j)
    with Cons.prems have "fst p \<noteq> k"
      by (auto simp: image_iff)
    with Cons Suc show ?thesis by simp
  qed
qed

section \<open>The transformer\<close>

text \<open>
  \<^verbatim>\<open>for key, value in record.items(): if isinstance(value, (datetime, date)): record[key] = value.isoformat()\<close>
  The loop walks the slots of the dictionary it is updating: \<open>items_loop i r\<close> is the state
  of the loop that is about to read slot \<open>i\<close> of the current dictionary \<open>r\<close>. The same loop
  is the body of \<^verbatim>\<open>transform_data\<close> and of the document loop of \<^verbatim>\<open>scriptrans.py\<close>.
\<close>

function items_loop :: "nat \<Rightarrow> reservation_record \<Rightarrow> reservation_record" where
  "items_loop i r =
     (if i < length r then
        items_loop (Suc i)
          (case r ! i of (key, val) \<Rightarrow>
             if isinstance_date val then setitem r key (isoformat val) else r)
      else r)"
  by pat_completeness auto
termination
proof (relation "measure (\<lambda>(i, r). length r - i)")
  show "wf (measure (\<lambda>(i, r). length r - i))" by simp
next
  fix i :: nat and r :: reservation_record
  assume lt: "i < length r"
  obtain key val where kv: "r ! i = (key, val)" by (cases "r ! i")
  with lt have "key \<in> fst ` set r"
    by (metis fst_conv image_eqI nth_mem)
  then have "length (setitem r key (isoformat val)) = length r"
    by (simp add: length_setitem)
  with lt kv
  show "((Suc i, case r ! i of (key, val) \<Rightarrow>
            if isinstance_date val then setitem r key (isoformat val) else r), i, r)
        \<in> measure (\<lambda>(i, r). length r - i)"
    by auto
qed

declare items_loop.simps [simp del]

definition transform_data :: "reservation_record list \<Rightarrow> reservation_record list" where
  "transform_data records = map (items_loop 0) records"

section \<open>The source database and the two extraction queries\<close>

text \<open>
  The tables the queries read, with the columns they mention. The schema is not part of
  the repository, so every column is nullable: key and count columns are \<open>int option\<close>
  (\<open>None\<close> is SQL \<^verbatim>\<open>NULL\<close>), \<^verbatim>\<open>created_at\<close> is a timestamp, \<^verbatim>\<open>system_value\<close> is text, and the
  columns that are only copied to the output hold whatever Python value the driver builds
  for them (\<open>PNone\<close> for \<^verbatim>\<open>NULL\<close>). Integers are unbounded: an addition that overflows the
  column type makes the statement fail as a whole, which is a failed \<^verbatim>\<open>execute\<close> below.
\<close>

record reservation_room =
  rr_id :: "int option"
  rr_reservation_id :: pyval
  rr_room_type_id :: "int option"
  rr_assigned_room_type_id :: "int option"
  rr_arrival :: pyval
  rr_departure :: pyval
  rr_stay :: pyval
  rr_booking_date :: pyval
  rr_master_guest_id :: "int option"
  rr_reservation_origin_id :: "int option"
  rr_reservation_source_id :: "int option"
  rr_number_of_adult :: "int option"
  rr_number_of_child :: "int option"
  rr_inf :: "int option"
  rr_card_group_id :: "int option"
  rr_card_group_type :: pyval
  rr_market_code_id :: "int option"
  rr_reservation_state_id :: "int option"
  rr_canceled_at :: pyval

record room_type =
  rty_id :: "int option"
  rty_code :: pyval

record guest_card =
  gc_id :: "int option"
  gc_country :: pyval

record reservation_origin =
  ro_id :: "int option"
  ro_name :: pyval

record reservation_source =
  rs_id :: "int option"
  rs_name :: pyval

record market_code =
  mc_id :: "int option"
  mc_name :: pyval

record reservation_room_night =
  rrn_reservation_room_id :: "int option"
  rrn_rate_id :: "int option"

record rate =
  rate_id :: "int option"
  rate_code :: pyval
  rate_name :: pyval

record agency_card =
  ag_id :: "int option"
  ag_name :: pyval

record reservation_state =
  st_id :: "int option"
  st_system_value :: "string option"

record reservation_room_state =
  rrs_reservation_room_id :: "int option"
  rrs_reservation_state_id :: "int option"
  rrs_created_at :: "py_datetime option"

record database =
  reservation_rooms :: "reservation_room list"
  room_types :: "room_type list"
  guest_cards :: "guest_card list"
  reservation_origins :: "reservation_origin list"
  reservation_sources :: "reservation_source list"
  market_codes :: "market_code list"
  reservation_room_nights :: "reservation_room_night list"
  rates :: "rate list"
  agency_cards :: "agency_card list"
  reservation_states :: "reservation_state list"
  reservation_room_states :: "reservation_room_state list"

subsection \<open>SQL operators\<close>

text \<open>
  \<open>sql_eq\<close> is \<^verbatim>\<open>=\<close> in an \<^verbatim>\<open>ON\<close> or \<^verbatim>\<open>WHERE\<close> condition: the row is kept only when the
  comparison is true, and a comparison with \<^verbatim>\<open>NULL\<close> is not. \<open>sql_plus\<close> is \<^verbatim>\<open>+\<close>, which is
  \<^verbatim>\<open>NULL\<close> as soon as one operand is. \<open>sql_int\<close> is the Python value of an integer cell.
\<close>

fun sql_eq :: "'a option \<Rightarrow> 'a option \<Rightarrow> bool" where
  "sql_eq (Some x) (Some y) = (x = y)"
| "sql_eq a b = False"

fun sql_plus :: "int option \<Rightarrow> int option \<Rightarrow> int option" where
  "sql_plus (Some x) (Some y) = Some (x + y)"
| "sql_plus a b = None"

fun sql_int :: "int option \<Rightarrow> pyval" where
  "sql_int None = PNone"
| "sql_int (Some n) = PInt n"

text \<open>
  \<^verbatim>\<open>LEFT JOIN t ON cond\<close> for one row of the left side: its partners in \<open>t\<close>, or a single
  all-\<^verbatim>\<open>NULL\<close> partner (\<open>None\<close>) when there is none. \<open>col f x\<close> reads column \<open>f\<close> of such a
  partner.
\<close>

definition left_join :: "('b \<Rightarrow> bool) \<Rightarrow> 'b list \<Rightarrow> 'b option list" where
  "left_join cond t = (case filter cond t of [] \<Rightarrow> [None] | ms \<Rightarrow> map Some ms)"

fun col :: "('b \<Rightarrow> pyval) \<Rightarrow> 'b option \<Rightarrow> pyval" where
  "col f None = PNone"
| "col f (Some x) = f x"

fun key_col :: "('b \<Rightarrow> int option) \<Rightarrow> 'b option \<Rightarrow> int option" where
  "key_col f None = None"
| "key_col f (Some x) = f x"

subsection \<open>The \<^verbatim>\<open>FROM\<close> clauses\<close>

text \<open>
  One joined row binds the aliases of the query: \<^verbatim>\<open>rr\<close> and its partners. The joins are a
  chain of left joins whose conditions mention \<^verbatim>\<open>rr\<close> or an earlier partner only, so the
  joined rows are enumerated alias by alias, in the order of the text of the query.
\<close>

record joined_row =
  rr :: reservation_room
  rrt :: "room_type option"
  gc :: "guest_card option"
  art :: "room_type option"
  ro :: "reservation_origin option"
  rs :: "reservation_source option"
  mc :: "market_code option"
  rrn :: "reservation_room_night option"
  rt :: "rate option"
  agency :: "agency_card option"

text \<open>The query of \<^verbatim>\<open>extract_data_from_postgres\<close>: nine left joins.\<close>

definition from_clause :: "database \<Rightarrow> joined_row list" where
  "from_clause db =
     [\<lparr>rr = r, rrt = a, gc = g, art = b, ro = c, rs = d, mc = e, rrn = n, rt = f, agency = h\<rparr>.
        r \<leftarrow> reservation_rooms db,
        a \<leftarrow> left_join (\<lambda>x. sql_eq (rr_room_type_id r) (rty_id x)) (room_types db),
        g \<leftarrow> left_join (\<lambda>x. sql_eq (rr_master_guest_id r) (gc_id x)) (guest_cards db),
        b \<leftarrow> left_join (\<lambda>x. sql_eq (rr_assigned_room_type_id r) (rty_id x)) (room_types db),
        c \<leftarrow> left_join (\<lambda>x. sql_eq (rr_reservation_origin_id r) (ro_id x)) (reservation_origins db),
        d \<leftarrow> left_join (\<lambda>x. sql_eq (rr_reservation_source_id r) (rs_id x)) (reservation_sources db),
        e \<leftarrow> left_join (\<lambda>x. sql_eq (rr_market_code_id r) (mc_id x)) (market_codes db),
        n \<leftarrow> left_join (\<lambda>x. sql_eq (rrn_reservation_room_id x) (rr_id r)) (reservation_room_nights db),
        f \<leftarrow> left_join (\<lambda>x. sql_eq (key_col rrn_rate_id n) (rate_id x)) (rates db),
        h \<leftarrow> left_join (\<lambda>x. sql_eq (rr_card_group_id r) (ag_id x)) (agency_cards db)]"

text \<open>
  The query of \<^verbatim>\<open>scriptrans.py\<close>: seven left joins; \<^verbatim>\<open>gc\<close> and \<^verbatim>\<open>agency\<close> are not joined
  (their slots stay \<open>None\<close> and the projection does not read them).
\<close>

definition scriptrans_from_clause :: "database \<Rightarrow> joined_row list" where
  "scriptrans_from_clause db =
     [\<lparr>rr = r, rrt = a, gc = None, art = b, ro = c, rs = d, mc = e, rrn = n, rt = f, agency = None\<rparr>.
        r \<leftarrow> reservation_rooms db,
        a \<leftarrow> left_join (\<lambda>x. sql_eq (rr_room_type_id r) (rty_id x)) (room_types db),
        b \<leftarrow> left_join (\<lambda>x. sql_eq (rr_assigned_room_type_id r) (rty_id x)) (room_types db),
        c \<leftarrow> left_join (\<lambda>x. sql_eq (rr_reservation_origin_id r) (ro_id x)) (reservation_origins db),
        d \<leftarrow> left_join (\<lambda>x. sql_eq (rr_reservation_source_id r) (rs_id x)) (reservation_sources db),
        e \<leftarrow> left_join (\<lambda>x. sql_eq (rr_market_code_id r) (mc_id x)) (market_codes db),
        n \<leftarrow> left_join (\<lambda>x. sql_eq (rrn_reservation_room_id x) (rr_id r)) (reservation_room_nights db),
        f \<leftarrow> left_join (\<lambda>x. sql_eq (key_col rrn_rate_id n) (rate_id x)) (rates db)]"

subsection \<open>The correlated subqueries\<close>

text \<open>
  \<^verbatim>\<open>SELECT COUNT(*) FROM reservation_rooms r2 JOIN reservation_states s2 ON s2.id = r2.reservation_state_id
  WHERE r2.master_guest_id = rr.master_guest_id AND s2.system_value = 'cancelled'\<close>:
  the number of rows of the inner join that pass the filter.
\<close>

definition preview_cancelled :: "database \<Rightarrow> reservation_room \<Rightarrow> pyval" where
  "preview_cancelled db r =
     PInt (int (length
       [(r2, s2).
          r2 \<leftarrow> reservation_rooms db,
          s2 \<leftarrow> reservation_states db,
          sql_eq (st_id s2) (rr_reservation_state_id r2),
          sql_eq (rr_master_guest_id r2) (rr_master_guest_id r) \<and> st_system_value s2 = Some ''cancelled'']))"

text \<open>
  \<^verbatim>\<open>ORDER BY created_at ASC\<close> compares timestamps field by field, from the year down to the
  microsecond (\<open>datetime_fields\<close> under the lexicographic order of lists), and PostgreSQL
  puts \<^verbatim>\<open>NULL\<close> last in an ascending order.
\<close>

definition datetime_fields :: "py_datetime \<Rightarrow> nat list" where
  "datetime_fields t =
     [dt_year t, dt_month t, dt_day t, dt_hour t, dt_minute t, dt_second t, dt_microsecond t]"

definition order_by_asc :: "py_datetime option list \<Rightarrow> py_datetime option list" where
  "order_by_asc vs =
     map Some (sort_key datetime_fields (List.map_filter (\<lambda>v. v) vs)) @ filter (\<lambda>v. v = None) vs"

text \<open>
  \<^verbatim>\<open>SELECT rrs.created_at FROM reservation_room_states rrs JOIN reservation_states st
  ON st.id = rrs.reservation_state_id WHERE rrs.reservation_room_id = rr.id AND st.system_value = 'cancelled'
  ORDER BY rrs.created_at ASC LIMIT 1\<close>; a scalar subquery without a row is \<^verbatim>\<open>NULL\<close>.
\<close>

definition cancelled_states :: "database \<Rightarrow> reservation_room \<Rightarrow> py_datetime option list" where
  "cancelled_states db r =
     [rrs_created_at rrs.
        rrs \<leftarrow> reservation_room_states db,
        st \<leftarrow> reservation_states db,
        sql_eq (st_id st) (rrs_reservation_state_id rrs),
        sql_eq (rrs_reservation_room_id rrs) (rr_id r) \<and> st_system_value st = Some ''cancelled'']"

definition cancelled_date :: "database \<Rightarrow> reservation_room \<Rightarrow> pyval" where
  "cancelled_date db r =
     (case take 1 (order_by_asc (cancelled_states db r)) of
        [] \<Rightarrow> PNone
      | v # _ \<Rightarrow> (case v of None \<Rightarrow> PNone | Some t \<Rightarrow> PDateTime t))"

subsection \<open>The \<^verbatim>\<open>SELECT\<close> lists\<close>

text \<open>
  Each entry is an output column: its name (what \<^verbatim>\<open>cursor.description\<close> reports) and the
  expression that computes its cell from the database and the joined row.
\<close>

type_synonym select_list = "(string \<times> (database \<Rightarrow> joined_row \<Rightarrow> pyval)) list"

definition occupancy :: "reservation_room \<Rightarrow> pyval" where
  "occupancy r = sql_int (sql_plus (sql_plus (rr_number_of_adult r) (rr_number_of_child r)) (rr_inf r))"

definition select_list :: select_list where
  "select_list =
    [(''reservation_id'', \<lambda>db j. rr_reservation_id (rr j)),
     (''requested_room_type_id'', \<lambda>db j. sql_int (rr_room_type_id (rr j))),
     (''requested_room_type_code'', \<lambda>db j. col rty_code (rrt j)),
     (''assigned_room_type_code'', \<lambda>db j. col rty_code (art j)),
     (''arrival_date'', \<lambda>db j. rr_arrival (rr j)),
     (''departure_date'', \<lambda>db j. rr_departure (rr j)),
     (''stay'', \<lambda>db j. rr_stay (rr j)),
     (''booking_date'', \<lambda>db j. rr_booking_date (rr j)),
     (''origin_city'', \<lambda>db j. col gc_country (gc j)),
     (''origin_reservation'', \<lambda>db j. col ro_name (ro j)),
     (''source_reservation'', \<lambda>db j. col rs_name (rs j)),
     (''occupancy'', \<lambda>db j. occupancy (rr j)),
     (''card_group_id'', \<lambda>db j. sql_int (rr_card_group_id (rr j))),
     (''card_group_name'', \<lambda>db j. col ag_name (agency j)),
     (''card_group_type'', \<lambda>db j. rr_card_group_type (rr j)),
     (''market_code_id'', \<lambda>db j. sql_int (rr_market_code_id (rr j))),
     (''market_code_name'', \<lambda>db j. col mc_name (mc j)),
     (''rate_code'', \<lambda>db j. col rate_code (rt j)),
     (''rate_name'', \<lambda>db j. col rate_name (rt j)),
     (''preview_cancelled'', \<lambda>db j. preview_cancelled db (rr j)),
     (''preview_no_show'', \<lambda>db j. PBool False),
     (''cancelled_date'', \<lambda>db j. cancelled_date db (rr j)),
     (''no_show_date'', \<lambda>db j. PNone),
     (''preference_guest'', \<lambda>db j. PNone),
     (''preference_reservation'', \<lambda>db j. PNone),
     (''season'', \<lambda>db j. PNone)]"

definition scriptrans_select_list :: select_list where
  "scriptrans_select_list =
    [(''reservation_id'', \<lambda>db j. rr_reservation_id (rr j)),
     (''requested_room_type_id'', \<lambda>db j. sql_int (rr_room_type_id (rr j))),
     (''requested_room_type_code'', \<lambda>db j. col rty_code (rrt j)),
     (''assigned_room_type_code'', \<lambda>db j. col rty_code (art j)),
     (''arrival_date'', \<lambda>db j. rr_arrival (rr j)),
     (''departure_date'', \<lambda>db j. rr_departure (rr j)),
     (''stay'', \<lambda>db j. rr_stay (rr j)),
     (''booking_date'', \<lambda>db j. rr_booking_date (rr j)),
     (''origin_city'', \<lambda>db j. PStr []),
     (''origin_reservation'', \<lambda>db j. col ro_name (ro j)),
     (''source_reservation'', \<lambda>db j. col rs_name (rs j)),
     (''occupancy'', \<lambda>db j. occupancy (rr j)),
     (''card_group_id'', \<lambda>db j. sql_int (rr_card_group_id (rr j))),
     (''card_group_name'', \<lambda>db j. PStr []),
     (''card_group_type'', \<lambda>db j. rr_card_group_type (rr j)),
     (''market_code_id'', \<lambda>db j. sql_int (rr_market_code_id (rr j))),
     (''market_code_name'', \<lambda>db j. col mc_name (mc j)),
     (''rate_code'', \<lambda>db j. col rate_code (rt j)),
     (''rate_name'', \<lambda>db j. col rate_name (rt j)),
     (''preview_cancelled'', \<lambda>db j. PBool False),
     (''preview_no_show'', \<lambda>db j. PBool False),
     (''cancelled_date'', \<lambda>db j. rr_canceled_at (rr j)),
     (''no_show_date'', \<lambda>db j. PNone),
     (''preference_guest'', \<lambda>db j. PNone),
     (''preference_reservation'', \<lambda>db j. PNone),
     (''season'', \<lambda>db j. PNone)]"

text \<open>
  \<open>description\<close> is the list of column names of a statement (\<^verbatim>\<open>desc[0] for desc in
  cursor.description\<close>) and \<open>fetchall\<close> the rows of its result, one per joined row.
\<close>

definition description :: "select_list \<Rightarrow> string list" where
  "description sel = map fst sel"

definition fetchall :: "select_list \<Rightarrow> database \<Rightarrow> joined_row list \<Rightarrow> pyval list list" where
  "fetchall sel db js = map (\<lambda>j. map (\<lambda>c. snd c db j) sel) js"

text \<open>The list \<^verbatim>\<open>target_fields\<close> of \<^verbatim>\<open>scriptrans.py\<close> ("for reference only").\<close>

definition target_fields :: "string list" where
  "target_fields =
    [''reservation_id'', ''requested_room_type_id'', ''requested_room_type_code'', ''assigned_room_type_code'',
     ''arrival_date'', ''departure_date'', ''stay'', ''booking_date'',
     ''origin_city'', ''origin_reservation'', ''source_reservation'',
     ''occupancy'', ''card_group_id'', ''card_group_name'', ''card_group_type'',
     ''market_code_id'', ''market_code_name'',
     ''rate_code'', ''rate_name'',
     ''preview_cancelled'', ''preview_no_show'',
     ''cancelled_date'', ''no_show_date'',
     ''preference_guest'', ''preference_reservation'', ''season'']"

text \<open>
  \<^verbatim>\<open>for row in rows: record = dict(zip(colnames, row)); data.append(record)\<close>
\<close>

definition rows_to_records :: "string list \<Rightarrow> pyval list list \<Rightarrow> reservation_record list" where
  "rows_to_records colnames rows = map (\<lambda>row. py_dict (zip colnames row)) rows"

section \<open>The pipeline and its collaborators\<close>

text \<open>
  Exceptions are values. Every exception of the model is an instance of \<open>Exception\<close>
  (driver errors and ordinary Python errors); only \<open>Psycopg2Error\<close> is an instance of
  \<^verbatim>\<open>psycopg2.Error\<close>. Asynchronous signals (\<open>KeyboardInterrupt\<close>, \<open>SystemExit\<close>) are not
  modelled.
\<close>

datatype exn = Psycopg2Error string | PyMongoError string | OtherException string

fun is_psycopg2_error :: "exn \<Rightarrow> bool" where
  "is_psycopg2_error (Psycopg2Error m) = True"
| "is_psycopg2_error e = False"

text \<open>
  What the run does to the outside world is recorded as a trace of events, in order:
  the resources it opens and closes, the statements it sends, the bulk write, each line
  it logs or prints (one constructor of \<open>message\<close> per call site, with the values that are
  formatted into the line), and the entry into each function of
  \<^verbatim>\<open>data_migration_postgres_to_mongo.py\<close>.
\<close>

datatype stage =
    GetPostgresConnection
  | ExtractDataFromPostgres
  | TransformData
  | GetMongoClient
  | LoadDataToMongo

datatype message =
    PostgresConnected
  | PostgresConnectionError exn
  | MongoConnected
  | MongoConnectionError exn
  | RecordsExtracted nat
  | ExtractionError exn
  | NoDocumentToInsert
  | DocumentsInserted nat
  | InsertionError exn
  | MainScriptError exn
  | PostgresClosed
  | MongoClosed
  | ErrorOccurred exn

datatype event =
    Call stage
  | PgConnect
  | PgCursorOpen
  | PgExecute
  | PgFetchall
  | PgCursorClose
  | PgClose
  | MongoConnect
  | MongoClose
  | InsertMany "reservation_record list"
  | LogInfo message
  | LogError message
  | Print message

text \<open>
  The environment fixes how the two stores answer: whether a call raises (and what), the
  content of the source database, and for the bulk write either the exception it raises
  or the number of identifiers in \<^verbatim>\<open>result.inserted_ids\<close>.
\<close>

record env =
  pg_connect_error :: "exn option"
  pg_cursor_error :: "exn option"
  pg_execute_error :: "exn option"
  pg_fetchall_error :: "exn option"
  source :: database
  mongo_client_error :: "exn option"
  insert_many :: "reservation_record list \<Rightarrow> exn + nat"

type_synonym 'a result = "event list \<times> (exn + 'a)"

subsection \<open>\<^verbatim>\<open>data_migration_postgres_to_mongo.py\<close>\<close>

definition get_postgres_connection :: "env \<Rightarrow> event list \<Rightarrow> unit result" where
  "get_postgres_connection env tr0 =
     (let tr = tr0 @ [Call GetPostgresConnection] in
      case pg_connect_error env of
        None \<Rightarrow> (tr @ [PgConnect, LogInfo PostgresConnected], Inr ())
      | Some e \<Rightarrow>
          if is_psycopg2_error e then (tr @ [LogError (PostgresConnectionError e)], Inl e)
          else (tr, Inl e))"

definition get_mongo_client :: "env \<Rightarrow> event list \<Rightarrow> unit result" where
  "get_mongo_client env tr0 =
     (let tr = tr0 @ [Call GetMongoClient] in
      case mongo_client_error env of
        None \<Rightarrow> (tr @ [MongoConnect, LogInfo MongoConnected], Inr ())
      | Some e \<Rightarrow> (tr @ [LogError (MongoConnectionError e)], Inl e))"

text \<open>
  The body of the \<^verbatim>\<open>with conn.cursor() as cursor:\<close> block. Leaving the block closes the
  cursor, also when \<^verbatim>\<open>execute\<close> or \<^verbatim>\<open>fetchall\<close> raises.
\<close>

definition cursor_block :: "env \<Rightarrow> event list \<Rightarrow> reservation_record list result" where
  "cursor_block env tr0 =
     (case pg_cursor_error env of
        Some e \<Rightarrow> (tr0, Inl e)
      | None \<Rightarrow>
          (case pg_execute_error env of
             Some e \<Rightarrow> (tr0 @ [PgCursorOpen, PgExecute, PgCursorClose], Inl e)
           | None \<Rightarrow>
               (case pg_fetchall_error env of
                  Some e \<Rightarrow> (tr0 @ [PgCursorOpen, PgExecute, PgFetchall, PgCursorClose], Inl e)
                | None \<Rightarrow>
                    (let rows = fetchall select_list (source env) (from_clause (source env));
                         colnames = description select_list;
                         data = rows_to_records colnames rows
                     in (tr0 @ [PgCursorOpen, PgExecute, PgFetchall, PgCursorClose], Inr data)))))"

definition extract_data_from_postgres :: "env \<Rightarrow> event list \<Rightarrow> reservation_record list result" where
  "extract_data_from_postgres env tr0 =
     (case cursor_block env (tr0 @ [Call ExtractDataFromPostgres]) of
        (tr, Inr data) \<Rightarrow> (tr @ [LogInfo (RecordsExtracted (length data))], Inr data)
      | (tr, Inl e) \<Rightarrow>
          if is_psycopg2_error e then (tr @ [LogError (ExtractionError e)], Inl e)
          else (tr, Inl e))"

text \<open>
  \<^verbatim>\<open>load_data_to_mongo\<close> has no \<^verbatim>\<open>return\<close> with a value: when it does not raise, what the
  caller gets is \<open>None\<close>.
\<close>

definition load_data_to_mongo :: "env \<Rightarrow> event list \<Rightarrow> reservation_record list \<Rightarrow> pyval result" where
  "load_data_to_mongo env tr0 records =
     (let tr = tr0 @ [Call LoadDataToMongo] in
      if records = [] then (tr @ [LogInfo NoDocumentToInsert], Inr PNone)
      else
        (case insert_many env records of
           Inr n \<Rightarrow> (tr @ [InsertMany records, LogInfo (DocumentsInserted n)], Inr PNone)
         | Inl e \<Rightarrow> (tr @ [InsertMany records, LogError (InsertionError e)], Inl e)))"

text \<open>
  The \<^verbatim>\<open>try\<close> block of \<^verbatim>\<open>main\<close>: the trace so far, whether \<^verbatim>\<open>pg_conn\<close> and \<^verbatim>\<open>mongo_client\<close>
  have been assigned a connection (they start as \<open>None\<close>), and the exception that left
  the block, if any.
\<close>

definition main_try :: "env \<Rightarrow> event list \<times> bool \<times> bool \<times> exn option" where
  "main_try env =
     (case get_postgres_connection env [] of
        (tr1, Inl e) \<Rightarrow> (tr1, False, False, Some e)
      | (tr1, Inr _) \<Rightarrow>
          (case extract_data_from_postgres env tr1 of
             (tr2, Inl e) \<Rightarrow> (tr2, True, False, Some e)
           | (tr2, Inr extracted) \<Rightarrow>
               (let data = transform_data extracted; tr3 = tr2 @ [Call TransformData] in
                case get_mongo_client env tr3 of
                  (tr4, Inl e) \<Rightarrow> (tr4, True, False, Some e)
                | (tr4, Inr _) \<Rightarrow>
                    (case load_data_to_mongo env tr4 data of
                       (tr5, Inl e) \<Rightarrow> (tr5, True, True, Some e)
                     | (tr5, Inr _) \<Rightarrow> (tr5, True, True, None)))))"

text \<open>
  \<^verbatim>\<open>except Exception as e\<close> logs the exception and swallows it; \<^verbatim>\<open>finally\<close> closes what
  was assigned (a \<^verbatim>\<open>close\<close> itself does not raise). \<^verbatim>\<open>main\<close> then returns \<open>None\<close>.
\<close>

definition main :: "env \<Rightarrow> pyval result" where
  "main env =
     (case main_try env of
        (tr, pg_conn, mongo_client, raised) \<Rightarrow>
          (let tr_except = (case raised of
                              Some e \<Rightarrow> tr @ [LogError (MainScriptError e)]
                            | None \<Rightarrow> tr);
               tr_pg = (if pg_conn then tr_except @ [PgClose, LogInfo PostgresClosed] else tr_except);
               tr_mongo = (if mongo_client then tr_pg @ [MongoClose, LogInfo MongoClosed] else tr_pg)
           in (tr_mongo, Inr PNone)))"

text \<open>
  The exit status of the interpreter: 1 when an exception leaves the script, 0 when the
  script runs to its end.
\<close>

fun exit_status :: "exn + pyval \<Rightarrow> nat" where
  "exit_status (Inl e) = 1"
| "exit_status (Inr v) = 0"

subsection \<open>\<^verbatim>\<open>scriptrans.py\<close>\<close>

text \<open>
  The module-level \<^verbatim>\<open>try\<close> block: the trace, whether the names \<^verbatim>\<open>pg_conn\<close>, \<^verbatim>\<open>pg_cursor\<close>
  and \<^verbatim>\<open>mongo_client\<close> have been bound, and the exception that left the block, if any.
\<close>

definition scriptrans_documents :: "string list \<Rightarrow> pyval list list \<Rightarrow> reservation_record list" where
  "scriptrans_documents colnames rows = map (\<lambda>row. items_loop 0 (py_dict (zip colnames row))) rows"

definition scriptrans_try :: "env \<Rightarrow> event list \<times> bool \<times> bool \<times> bool \<times> exn option" where
  "scriptrans_try env =
     (case pg_connect_error env of
        Some e \<Rightarrow> ([], False, False, False, Some e)
      | None \<Rightarrow>
     (case pg_cursor_error env of
        Some e \<Rightarrow> ([PgConnect], True, False, False, Some e)
      | None \<Rightarrow>
     (case mongo_client_error env of
        Some e \<Rightarrow> ([PgConnect, PgCursorOpen], True, True, False, Some e)
      | None \<Rightarrow>
     (case pg_execute_error env of
        Some e \<Rightarrow> ([PgConnect, PgCursorOpen, MongoConnect, PgExecute], True, True, True, Some e)
      | None \<Rightarrow>
     (case pg_fetchall_error env of
        Some e \<Rightarrow> ([PgConnect, PgCursorOpen, MongoConnect, PgExecute, PgFetchall], True, True, True, Some e)
      | None \<Rightarrow>
          (let tr = [PgConnect, PgCursorOpen, MongoConnect, PgExecute, PgFetchall];
               rows = fetchall scriptrans_select_list (source env) (scriptrans_from_clause (source env));
               colnames = description scriptrans_select_list;
               documents = scriptrans_documents colnames rows
           in if documents \<noteq> [] then
                (case insert_many env documents of
                   Inl e \<Rightarrow> (tr @ [InsertMany documents], True, True, True, Some e)
                 | Inr n \<Rightarrow>
                     (tr @ [InsertMany documents, Print (DocumentsInserted (length documents))],
                      True, True, True, None))
              else (tr, True, True, True, None)))))))"

definition scriptrans :: "env \<Rightarrow> pyval result" where
  "scriptrans env =
     (case scriptrans_try env of
        (tr, pg_conn, pg_cursor, mongo_client, raised) \<Rightarrow>
          (let tr_except = (case raised of
                              Some e \<Rightarrow> tr @ [Print (ErrorOccurred e)]
                            | None \<Rightarrow> tr);
               tr_cursor = (if pg_cursor then tr_except @ [PgCursorClose] else tr_except);
               tr_pg = (if pg_conn then tr_cursor @ [PgClose] else tr_cursor);
               tr_mongo = (if mongo_client then tr_pg @ [MongoClose] else tr_pg)
           in (tr_mongo, Inr PNone)))"

subsection \<open>Reading a trace\<close>

text \<open>
  \<open>open_after acq rel tr\<close>: the number of resources of one kind that are open after the
  trace, counting the acquiring event \<open>acq\<close> up and the releasing event \<open>rel\<close> down.
\<close>

definition open_after :: "event \<Rightarrow> event \<Rightarrow> event list \<Rightarrow> int" where
  "open_after acq rel tr = int (count_list tr acq) - int (count_list tr rel)"

fun is_insert :: "event \<Rightarrow> bool" where
  "is_insert (InsertMany docs) = True"
| "is_insert ev = False"

definition write_calls :: "event list \<Rightarrow> nat" where
  "write_calls tr = length (filter is_insert tr)"

section \<open>Vocabulary of the properties\<close>

text \<open>
  The kinds of value the specification names: the inputs of the transformer it speaks
  about (text, numbers, booleans, null, dates, date-times) and the values a document may
  hold (text, number, boolean, null).
\<close>

fun source_kind :: "pyval \<Rightarrow> bool" where
  "source_kind (PTime h m s us) = False"
| "source_kind v = True"

fun document_safe :: "pyval \<Rightarrow> bool" where
  "document_safe PNone = True"
| "document_safe (PBool b) = True"
| "document_safe (PInt n) = True"
| "document_safe (PFloat x) = True"
| "document_safe (PStr s) = True"
| "document_safe v = False"

text \<open>One slot of a record after the loop has passed it.\<close>

definition normalise_item :: "string \<times> pyval \<Rightarrow> string \<times> pyval" where
  "normalise_item p = (fst p, if isinstance_date (snd p) then isoformat (snd p) else snd p)"

section \<open>The derived fields, in the words of the specification\<close>

text \<open>
  The integer sum of the adult, child and infant counts of a source row; it is null as
  soon as one of the three counts is.
\<close>

definition sum_of_counts :: "reservation_room \<Rightarrow> pyval" where
  "sum_of_counts r =
     (case (rr_number_of_adult r, rr_number_of_child r, rr_inf r) of
        (Some a, Some c, Some n) \<Rightarrow> PInt (a + c + n)
      | _ \<Rightarrow> PNone)"

text \<open>
  A reservation state identifier "matches the cancelled state" when the table of states
  has a row with that identifier whose system value is \<^verbatim>\<open>cancelled\<close>.
\<close>

definition is_cancelled_state :: "database \<Rightarrow> int option \<Rightarrow> bool" where
  "is_cancelled_state db sid =
     list_ex (\<lambda>s. sql_eq (st_id s) sid \<and> st_system_value s = Some ''cancelled'') (reservation_states db)"

text \<open>
  The number of reservation-rooms of the table that share the master guest of \<open>r\<close> and
  whose reservation state matches the cancelled state.
\<close>

definition cancelled_rooms_of_guest :: "database \<Rightarrow> reservation_room \<Rightarrow> nat" where
  "cancelled_rooms_of_guest db r =
     length (filter (\<lambda>r2. sql_eq (rr_master_guest_id r2) (rr_master_guest_id r)
                          \<and> is_cancelled_state db (rr_reservation_state_id r2))
               (reservation_rooms db))"

text \<open>
  The timestamps at which a cancelled state was recorded for the reservation-room \<open>r\<close>.
\<close>

definition cancellation_times :: "database \<Rightarrow> reservation_room \<Rightarrow> py_datetime list" where
  "cancellation_times db r =
     List.map_filter rrs_created_at
       (filter (\<lambda>rrs. sql_eq (rrs_reservation_room_id rrs) (rr_id r)
                       \<and> is_cancelled_state db (rrs_reservation_state_id rrs))
          (reservation_room_states db))"

section \<open>Sample inputs\<close>

text \<open>
  The row of the example scenario of the specification (arrival 2024-03-01, departure
  2024-03-05, two adults, one child, no infant), a database that holds it with its
  cancellation history, and environments in which every call succeeds or the query fails.
\<close>

definition sample_room :: reservation_room where
  "sample_room =
     \<lparr>rr_id = Some 1, rr_reservation_id = PInt 501, rr_room_type_id = Some 10,
      rr_assigned_room_type_id = None,
      rr_arrival = PDate \<lparr>year = 2024, month = 3, day = 1\<rparr>,
      rr_departure = PDate \<lparr>year = 2024, month = 3, day = 5\<rparr>,
      rr_stay = PInt 4, rr_booking_date = PNone, rr_master_guest_id = Some 7,
      rr_reservation_origin_id = None, rr_reservation_source_id = None,
      rr_number_of_adult = Some 2, rr_number_of_child = Some 1, rr_inf = Some 0,
      rr_card_group_id = None, rr_card_group_type = PNone, rr_market_code_id = None,
      rr_reservation_state_id = Some 2, rr_canceled_at = PNone\<rparr>"

definition sample_db :: database where
  "sample_db =
     \<lparr>reservation_rooms =
        [sample_room,
         sample_room\<lparr>rr_id := Some 2, rr_reservation_state_id := Some 1\<rparr>,
         sample_room\<lparr>rr_id := Some 3\<rparr>,
         sample_room\<lparr>rr_id := Some 4, rr_master_guest_id := Some 8\<rparr>],
      room_types = [\<lparr>rty_id = Some 10, rty_code = PStr ''DBL''\<rparr>],
      guest_cards = [], reservation_origins = [], reservation_sources = [], market_codes = [],
      reservation_room_nights = [], rates = [], agency_cards = [],
      reservation_states =
        [\<lparr>st_id = Some 1, st_system_value = Some ''confirmed''\<rparr>,
         \<lparr>st_id = Some 2, st_system_value = Some ''cancelled''\<rparr>],
      reservation_room_states =
        [\<lparr>rrs_reservation_room_id = Some 1, rrs_reservation_state_id = Some 2,
          rrs_created_at = Some \<lparr>dt_year = 2024, dt_month = 2, dt_day = 20, dt_hour = 10,
            dt_minute = 0, dt_second = 0, dt_microsecond = 0\<rparr>\<rparr>,
         \<lparr>rrs_reservation_room_id = Some 1, rrs_reservation_state_id = Some 2,
          rrs_created_at = Some \<lparr>dt_year = 2024, dt_month = 2, dt_day = 18, dt_hour = 8,
            dt_minute = 0, dt_second = 0, dt_microsecond = 0\<rparr>\<rparr>,
         \<lparr>rrs_reservation_room_id = Some 1, rrs_reservation_state_id = Some 1,
          rrs_created_at = Some \<lparr>dt_year = 2024, dt_month = 1, dt_day = 5, dt_hour = 12,
            dt_minute = 0, dt_second = 0, dt_microsecond = 0\<rparr>\<rparr>,
         \<lparr>rrs_reservation_room_id = Some 3, rrs_reservation_state_id = Some 2,
          rrs_created_at = Some \<lparr>dt_year = 2023, dt_month = 12, dt_day = 1, dt_hour = 9,
            dt_minute = 0, dt_second = 0, dt_microsecond = 0\<rparr>\<rparr>]\<rparr>"

definition one_room_db :: database where
  "one_room_db =
     \<lparr>reservation_rooms = [sample_room], room_types = [], guest_cards = [],
      reservation_origins = [], reservation_sources = [], market_codes = [],
      reservation_room_nights = [], rates = [], agency_cards = [], reservation_states = [],
      reservation_room_states = []\<rparr>"

definition accepting_env :: "database \<Rightarrow> env" where
  "accepting_env db =
     \<lparr>pg_connect_error = None, pg_cursor_error = None, pg_execute_error = None,
      pg_fetchall_error = None, source = db, mongo_client_error = None,
      insert_many = (\<lambda>docs. Inr (length docs))\<rparr>"

definition failing_query_env :: env where
  "failing_query_env = (accepting_env one_room_db)\<lparr>pg_execute_error := Some (Psycopg2Error ''syntax error'')\<rparr>"

definition sample_joined_row :: joined_row where
  "sample_joined_row =
     \<lparr>rr = sample_room, rrt = None, gc = None, art = None, ro = None, rs = None, mc = None,
      rrn = None, rt = None, agency = None\<rparr>"

text \<open>The record and the document that the row of the example leads to.\<close>

definition sample_record :: reservation_record where
  "sample_record =
     [(''reservation_id'', PInt 501), (''requested_room_type_id'', PInt 10),
      (''requested_room_type_code'', PNone), (''assigned_room_type_code'', PNone),
      (''arrival_date'', PDate \<lparr>year = 2024, month = 3, day = 1\<rparr>),
      (''departure_date'', PDate \<lparr>year = 2024, month = 3, day = 5\<rparr>),
      (''stay'', PInt 4), (''booking_date'', PNone), (''origin_city'', PNone),
      (''origin_reservation'', PNone), (''source_reservation'', PNone), (''occupancy'', PInt 3),
      (''card_group_id'', PNone), (''card_group_name'', PNone), (''card_group_type'', PNone),
      (''market_code_id'', PNone), (''market_code_name'', PNone), (''rate_code'', PNone),
      (''rate_name'', PNone), (''preview_cancelled'', PInt 0), (''preview_no_show'', PBool False),
      (''cancelled_date'', PNone), (''no_show_date'', PNone), (''preference_guest'', PNone),
      (''preference_reservation'', PNone), (''season'', PNone)]"

definition sample_document :: reservation_record where
  "sample_document =
     [(''reservation_id'', PInt 501), (''requested_room_type_id'', PInt 10),
      (''requested_room_type_code'', PNone), (''assigned_room_type_code'', PNone),
      (''arrival_date'', PStr ''2024-03-01''), (''departure_date'', PStr ''2024-03-05''),
      (''stay'', PInt 4), (''booking_date'', PNone), (''origin_city'', PNone),
      (''origin_reservation'', PNone), (''source_reservation'', PNone), (''occupancy'', PInt 3),
      (''card_group_id'', PNone), (''card_group_name'', PNone), (''card_group_type'', PNone),
      (''market_code_id'', PNone), (''market_code_name'', PNone), (''rate_code'', PNone),
      (''rate_name'', PNone), (''preview_cancelled'', PInt 0), (''preview_no_show'', PBool False),
      (''cancelled_date'', PNone), (''no_show_date'', PNone), (''preference_guest'', PNone),
      (''preference_reservation'', PNone), (''season'', PNone)]"

section \<open>Dictionaries\<close>

lemma setitem_absent: "k \<notin> fst ` set d \<Longrightarrow> setitem d k v = d @ [(k, v)]"
  by (induction d) auto

lemma is_dict_setitem: "is_dict d \<Longrightarrow> is_dict (setitem d k v)"
proof (cases "k \<in> fst ` set d")
  case True
  assume "is_dict d"
  with True show ?thesis by (simp add: is_dict_def keys_setitem_present)
next
  case False
  assume "is_dict d"
  with False show ?thesis by (simp add: is_dict_def setitem_absent)
qed

lemma is_dict_fold_setitem:
  "is_dict d \<Longrightarrow> is_dict (fold (\<lambda>(k, v) d. setitem d k v) pairs d)"
  by (induction pairs arbitrary: d) (auto simp: is_dict_setitem)

lemma is_dict_py_dict: "is_dict (py_dict pairs)"
  using is_dict_fold_setitem[of "[]" pairs] unfolding py_dict_def is_dict_def by simp

lemma fold_setitem_fresh:
  "distinct (map fst (d @ pairs)) \<Longrightarrow> fold (\<lambda>(k, v) d. setitem d k v) pairs d = d @ pairs"
proof (induction pairs arbitrary: d)
  case Nil
  then show ?case by simp
next
  case (Cons p ps)
  obtain k v where p: "p = (k, v)" by (cases p)
  from Cons.prems p have fresh: "k \<notin> fst ` set d" by auto
  from Cons.prems p have "distinct (map fst ((d @ [(k, v)]) @ ps))" by auto
  from Cons.IH[OF this] fresh p show ?case by (simp add: setitem_absent)
qed

lemma py_dict_distinct: "distinct (map fst pairs) \<Longrightarrow> py_dict pairs = pairs"
  using fold_setitem_fresh[of "[]" pairs] by (simp add: py_dict_def)

lemma py_dict_zip:
  "distinct colnames \<Longrightarrow> length row = length colnames \<Longrightarrow> py_dict (zip colnames row) = zip colnames row"
  by (rule py_dict_distinct) simp

lemma is_dict_rows_to_records: "r \<in> set (rows_to_records colnames rows) \<Longrightarrow> is_dict r"
  by (auto simp: rows_to_records_def is_dict_py_dict)

section \<open>The loop of the transformer\<close>

lemma fst_normalise_item: "fst (normalise_item p) = fst p"
  by (simp add: normalise_item_def)

lemma normalise_item_rule:
  "normalise_item =
     (\<lambda>(k, v). (k, case v of PDate d \<Rightarrow> PStr (date_isoformat d)
                       | PDateTime t \<Rightarrow> PStr (datetime_isoformat t)
                       | _ \<Rightarrow> v))"
  by (rule ext) (auto simp: normalise_item_def split: pyval.splits)

lemma not_date_normalise_item: "\<not> isinstance_date (snd (normalise_item p))"
  by (cases "snd p") (simp_all add: normalise_item_def)

lemma safe_normalise_item: "source_kind (snd p) \<Longrightarrow> document_safe (snd (normalise_item p))"
  by (cases "snd p") (simp_all add: normalise_item_def)

lemma normalise_item_idem: "normalise_item (normalise_item p) = normalise_item p"
  by (cases "snd p") (simp_all add: normalise_item_def)

text \<open>
  The invariant of the loop: when it is about to read slot \<open>i\<close>, the slots before \<open>i\<close>
  are what they were on its way past, and a run from there normalises the others.
\<close>

lemma items_loop_slots:
  "distinct (map fst r) \<Longrightarrow> i \<le> length r \<Longrightarrow>
   items_loop i r = take i r @ map normalise_item (drop i r)"
proof (induction i r rule: items_loop.induct)
  case (1 i r)
  show ?case
  proof (cases "i < length r")
    case False
    with "1.prems" show ?thesis by (simp add: items_loop.simps)
  next
    case True
    obtain key val where kv: "r ! i = (key, val)" by (cases "r ! i")
    define r' where "r' = (if isinstance_date val then setitem r key (isoformat val) else r)"
    have upd: "r' = r[i := normalise_item (r ! i)]"
    proof (cases "isinstance_date val")
      case True
      with \<open>i < length r\<close> kv "1.prems"(1) show ?thesis
        by (simp add: r'_def normalise_item_def setitem_nth)
    next
      case False
      with kv list_update_id[of r i] show ?thesis
        by (simp add: r'_def normalise_item_def)
    qed
    have keys': "map fst r' = map fst r"
      using True list_update_id[of "map fst r" i]
      by (simp add: upd map_update fst_normalise_item)
    have step: "items_loop i r = items_loop (Suc i) r'"
      using True kv by (subst items_loop.simps) (simp add: r'_def)
    have "items_loop (Suc i) r' = take (Suc i) r' @ map normalise_item (drop (Suc i) r')"
      using "1.IH"[OF True] True "1.prems" keys' kv
      by (simp add: r'_def length_setitem)
    also have "\<dots> = take i r @ map normalise_item (drop i r)"
      using True by (simp add: upd take_Suc_conv_app_nth Cons_nth_drop_Suc[symmetric])
    finally show ?thesis using step by simp
  qed
qed

lemma items_loop_dict: "is_dict r \<Longrightarrow> items_loop 0 r = map normalise_item r"
  using items_loop_slots[of r 0] by (simp add: is_dict_def)

lemma is_dict_normalised: "is_dict r \<Longrightarrow> is_dict (map normalise_item r)"
  by (simp add: is_dict_def comp_def fst_normalise_item)

lemma transform_data_map:
  "\<forall>r\<in>set records. is_dict r \<Longrightarrow> transform_data records = map (map normalise_item) records"
  by (simp add: transform_data_def items_loop_dict)

text \<open>The loop never changes the keys or their order, whatever the association list.\<close>

lemma keys_items_loop: "map fst (items_loop i r) = map fst r"
proof (induction i r rule: items_loop.induct)
  case (1 i r)
  show ?case
  proof (cases "i < length r")
    case False
    then show ?thesis by (simp add: items_loop.simps)
  next
    case True
    obtain key val where kv: "r ! i = (key, val)" by (cases "r ! i")
    with True have present: "key \<in> fst ` set r"
      by (metis fst_conv image_eqI nth_mem)
    define r' where "r' = (if isinstance_date val then setitem r key (isoformat val) else r)"
    have "items_loop i r = items_loop (Suc i) r'"
      using True kv by (subst items_loop.simps) (simp add: r'_def)
    moreover have "map fst (items_loop (Suc i) r') = map fst r'"
      using "1.IH"[OF True] kv by (simp add: r'_def)
    moreover have "map fst r' = map fst r"
      using present by (simp add: r'_def keys_setitem_present)
    ultimately show ?thesis by simp
  qed
qed

section \<open>\<open>isoformat\<close>\<close>

lemma str_of_nat_1: "n < 10 \<Longrightarrow> str_of_nat n = [digit_char n]"
  by (subst str_of_nat.simps) simp

lemma digit_char_mod: "digit_char (n mod 10) = digit_char n"
  by (simp add: digit_char_def)

lemma str_of_nat_step: "10 \<le> n \<Longrightarrow> str_of_nat n = str_of_nat (n div 10) @ [digit_char n]"
  by (subst str_of_nat.simps) (simp add: digit_char_mod)

lemma digit_char_0: "digit_char 0 = CHR ''0''"
  by (simp add: digit_char_def)

lemma str_of_nat_2: "10 \<le> n \<Longrightarrow> n < 100 \<Longrightarrow> str_of_nat n = [digit_char (n div 10), digit_char n]"
  by (simp add: str_of_nat_step str_of_nat_1)

lemma div_10_10: "(n::nat) div 10 div 10 = n div 100"
  by (simp add: div_mult2_eq[symmetric])

lemma div_10_100: "(n::nat) div 10 div 100 = n div 1000"
  by (simp add: div_mult2_eq[symmetric])

lemma str_of_nat_3:
  assumes "100 \<le> n" "n < 1000"
  shows "str_of_nat n = [digit_char (n div 100), digit_char (n div 10), digit_char n]"
proof -
  from assms have "10 \<le> n div 10" "n div 10 < 100" by simp_all
  then have "str_of_nat (n div 10) = [digit_char (n div 10 div 10), digit_char (n div 10)]"
    by (rule str_of_nat_2)
  moreover have "str_of_nat n = str_of_nat (n div 10) @ [digit_char n]"
    using assms by (intro str_of_nat_step) simp
  ultimately show ?thesis by (simp add: div_10_10)
qed

lemma str_of_nat_4:
  assumes "1000 \<le> n" "n < 10000"
  shows "str_of_nat n =
    [digit_char (n div 1000), digit_char (n div 100), digit_char (n div 10), digit_char n]"
proof -
  from assms have "100 \<le> n div 10" "n div 10 < 1000" by simp_all
  then have "str_of_nat (n div 10) =
      [digit_char (n div 10 div 100), digit_char (n div 10 div 10), digit_char (n div 10)]"
    by (rule str_of_nat_3)
  moreover have "str_of_nat n = str_of_nat (n div 10) @ [digit_char n]"
    using assms by (intro str_of_nat_step) simp
  ultimately show ?thesis by (simp add: div_10_10 div_10_100)
qed

lemma replicate_zeros:
  "replicate (Suc 0) c = [c]" "replicate 2 c = [c, c]" "replicate 3 c = [c, c, c]"
  by (simp_all add: numeral_2_eq_2 numeral_3_eq_3)

lemma zero_padded_2: "n < 100 \<Longrightarrow> zero_padded 2 n = [digit_char (n div 10), digit_char n]"
proof (cases "n < 10")
  case True
  then show ?thesis by (simp add: zero_padded_def str_of_nat_1 digit_char_0)
next
  case False
  assume "n < 100"
  with False show ?thesis by (simp add: zero_padded_def str_of_nat_2)
qed

lemma zero_padded_4:
  assumes "n < 10000"
  shows "zero_padded 4 n =
    [digit_char (n div 1000), digit_char (n div 100), digit_char (n div 10), digit_char n]"
proof -
  consider "n < 10" | "10 \<le> n" "n < 100" | "100 \<le> n" "n < 1000" | "1000 \<le> n" by linarith
  then show ?thesis
  proof cases
    case 1 then show ?thesis
      by (simp add: zero_padded_def str_of_nat_1 digit_char_0 replicate_zeros)
  next
    case 2 then show ?thesis
      by (simp add: zero_padded_def str_of_nat_2 digit_char_0 replicate_zeros)
  next
    case 3 then show ?thesis
      by (simp add: zero_padded_def str_of_nat_3 digit_char_0 replicate_zeros)
  next
    case 4 with assms show ?thesis by (simp add: zero_padded_def str_of_nat_4)
  qed
qed

lemma date_isoformat_shape:
  "year d < 10000 \<Longrightarrow> month d < 100 \<Longrightarrow> day d < 100 \<Longrightarrow>
   date_isoformat d =
     [digit_char (year d div 1000), digit_char (year d div 100), digit_char (year d div 10),
      digit_char (year d), CHR ''-'', digit_char (month d div 10), digit_char (month d), CHR ''-'',
      digit_char (day d div 10), digit_char (day d)]"
  by (simp add: date_isoformat_def zero_padded_2 zero_padded_4)

lemma datetime_isoformat_shape:
  "dt_year t < 10000 \<Longrightarrow> dt_month t < 100 \<Longrightarrow> dt_day t < 100 \<Longrightarrow>
   dt_hour t < 100 \<Longrightarrow> dt_minute t < 100 \<Longrightarrow> dt_second t < 100 \<Longrightarrow> dt_microsecond t = 0 \<Longrightarrow>
   datetime_isoformat t =
     [digit_char (dt_year t div 1000), digit_char (dt_year t div 100), digit_char (dt_year t div 10),
      digit_char (dt_year t), CHR ''-'', digit_char (dt_month t div 10), digit_char (dt_month t),
      CHR ''-'', digit_char (dt_day t div 10), digit_char (dt_day t), CHR ''T'',
      digit_char (dt_hour t div 10), digit_char (dt_hour t), CHR '':'',
      digit_char (dt_minute t div 10), digit_char (dt_minute t), CHR '':'',
      digit_char (dt_second t div 10), digit_char (dt_second t)]"
  by (simp add: datetime_isoformat_def zero_padded_2 zero_padded_4)

section \<open>The extractor\<close>

lemma description_select_list: "description select_list = target_fields"
  by (simp add: description_def select_list_def target_fields_def)

lemma description_scriptrans_select_list: "description scriptrans_select_list = target_fields"
  by (simp add: description_def scriptrans_select_list_def target_fields_def)

lemma distinct_target_fields: "distinct target_fields"
  by (simp add: target_fields_def)

lemma length_target_fields: "length target_fields = 26"
  by (simp add: target_fields_def)

text \<open>A record of the result: the cells of its row under the names of the columns.\<close>

lemma record_of_row:
  "distinct (description sel) \<Longrightarrow>
   py_dict (zip (description sel) (map (\<lambda>c. snd c db j) sel)) = map (\<lambda>c. (fst c, snd c db j)) sel"
proof -
  assume d: "distinct (description sel)"
  have z: "zip (description sel) (map (\<lambda>c. snd c db j) sel) = map (\<lambda>c. (fst c, snd c db j)) sel"
    by (induction sel) (simp_all add: description_def)
  have "map fst (map (\<lambda>c. (fst c, snd c db j)) sel) = description sel"
    by (simp add: description_def comp_def)
  with d have "distinct (map fst (map (\<lambda>c. (fst c, snd c db j)) sel))" by simp
  then show ?thesis unfolding z by (rule py_dict_distinct)
qed

lemma records_of_query:
  "distinct (description sel) \<Longrightarrow>
   rows_to_records (description sel) (fetchall sel db js) =
     map (\<lambda>j. map (\<lambda>c. (fst c, snd c db j)) sel) js"
  by (simp add: rows_to_records_def fetchall_def comp_def record_of_row)

lemma extract_success:
  "snd (extract_data_from_postgres env tr) = Inr data \<Longrightarrow>
   data = map (\<lambda>j. map (\<lambda>c. (fst c, snd c (source env) j)) select_list) (from_clause (source env))"
  using records_of_query[of select_list "source env" "from_clause (source env)"]
  by (auto simp: extract_data_from_postgres_def cursor_block_def Let_def
        description_select_list distinct_target_fields
      split: option.splits if_splits)

lemma scriptrans_documents_of_query:
  "distinct (description sel) \<Longrightarrow>
   scriptrans_documents (description sel) (fetchall sel db js) =
     map (items_loop 0) (map (\<lambda>j. map (\<lambda>c. (fst c, snd c db j)) sel) js)"
proof -
  assume "distinct (description sel)"
  then have "rows_to_records (description sel) (fetchall sel db js) =
      map (\<lambda>j. map (\<lambda>c. (fst c, snd c db j)) sel) js"
    by (rule records_of_query)
  moreover have "scriptrans_documents (description sel) (fetchall sel db js) =
      map (items_loop 0) (rows_to_records (description sel) (fetchall sel db js))"
    by (simp add: scriptrans_documents_def rows_to_records_def)
  ultimately show ?thesis by simp
qed

lemma scriptrans_inserted:
  assumes "InsertMany docs \<in> set (fst (scriptrans env))"
  shows "docs = map (items_loop 0)
     (map (\<lambda>j. map (\<lambda>c. (fst c, snd c (source env) j)) scriptrans_select_list)
        (scriptrans_from_clause (source env)))"
proof -
  from assms have "docs = scriptrans_documents (description scriptrans_select_list)
      (fetchall scriptrans_select_list (source env) (scriptrans_from_clause (source env)))"
    by (auto simp: scriptrans_def scriptrans_try_def Let_def
        split: option.splits if_splits sum.splits)
  also have "\<dots> = map (items_loop 0)
     (map (\<lambda>j. map (\<lambda>c. (fst c, snd c (source env) j)) scriptrans_select_list)
        (scriptrans_from_clause (source env)))"
    by (rule scriptrans_documents_of_query)
      (simp add: description_scriptrans_select_list distinct_target_fields)
  finally show ?thesis .
qed

lemma keys_of_record: "keys (map (\<lambda>c. (fst c, snd c db j)) sel) = description sel"
  by (simp add: keys_def description_def comp_def)

lemma getitem_select_list:
  "getitem (map (\<lambda>c. (fst c, snd c db j)) select_list) ''occupancy'' = Some (occupancy (rr j))"
  "getitem (map (\<lambda>c. (fst c, snd c db j)) select_list) ''arrival_date'' = Some (rr_arrival (rr j))"
  "getitem (map (\<lambda>c. (fst c, snd c db j)) select_list) ''departure_date'' = Some (rr_departure (rr j))"
  "getitem (map (\<lambda>c. (fst c, snd c db j)) select_list) ''preview_cancelled'' = Some (preview_cancelled db (rr j))"
  "getitem (map (\<lambda>c. (fst c, snd c db j)) select_list) ''cancelled_date'' = Some (cancelled_date db (rr j))"
  "getitem (map (\<lambda>c. (fst c, snd c db j)) select_list) ''no_show_date'' = Some PNone"
  "getitem (map (\<lambda>c. (fst c, snd c db j)) select_list) ''preference_guest'' = Some PNone"
  "getitem (map (\<lambda>c. (fst c, snd c db j)) select_list) ''preference_reservation'' = Some PNone"
  "getitem (map (\<lambda>c. (fst c, snd c db j)) select_list) ''season'' = Some PNone"
  by (simp_all add: getitem_def select_list_def)

lemma getitem_scriptrans_select_list:
  "getitem (map (\<lambda>c. (fst c, snd c db j)) scriptrans_select_list) ''occupancy'' = Some (occupancy (rr j))"
  "getitem (map (\<lambda>c. (fst c, snd c db j)) scriptrans_select_list) ''arrival_date'' = Some (rr_arrival (rr j))"
  "getitem (map (\<lambda>c. (fst c, snd c db j)) scriptrans_select_list) ''departure_date'' = Some (rr_departure (rr j))"
  "getitem (map (\<lambda>c. (fst c, snd c db j)) scriptrans_select_list) ''no_show_date'' = Some PNone"
  "getitem (map (\<lambda>c. (fst c, snd c db j)) scriptrans_select_list) ''preference_guest'' = Some PNone"
  "getitem (map (\<lambda>c. (fst c, snd c db j)) scriptrans_select_list) ''preference_reservation'' = Some PNone"
  "getitem (map (\<lambda>c. (fst c, snd c db j)) scriptrans_select_list) ''season'' = Some PNone"
  by (simp_all add: getitem_def scriptrans_select_list_def)

lemma occupancy_sum_of_counts: "occupancy r = sum_of_counts r"
  by (cases "rr_number_of_adult r"; cases "rr_number_of_child r"; cases "rr_inf r")
     (simp_all add: occupancy_def sum_of_counts_def)

lemma left_join_nonempty: "left_join cond t \<noteq> []"
  by (simp add: left_join_def split: list.splits)

lemma left_join_member: "\<exists>x. x \<in> set (left_join cond t)"
  using left_join_nonempty[of cond t] by (cases "left_join cond t") auto

text \<open>Left joins neither invent nor drop a reservation-room.\<close>

lemma from_clause_sound: "j \<in> set (from_clause db) \<Longrightarrow> rr j \<in> set (reservation_rooms db)"
  by (auto simp: from_clause_def)

lemma from_clause_complete:
  assumes "r \<in> set (reservation_rooms db)"
  shows "\<exists>j\<in>set (from_clause db). rr j = r"
proof -
  obtain a where a: "a \<in> set (left_join (\<lambda>x. sql_eq (rr_room_type_id r) (rty_id x)) (room_types db))"
    using left_join_member by blast
  obtain g where g: "g \<in> set (left_join (\<lambda>x. sql_eq (rr_master_guest_id r) (gc_id x)) (guest_cards db))"
    using left_join_member by blast
  obtain b where b: "b \<in> set (left_join (\<lambda>x. sql_eq (rr_assigned_room_type_id r) (rty_id x)) (room_types db))"
    using left_join_member by blast
  obtain c where c: "c \<in> set (left_join (\<lambda>x. sql_eq (rr_reservation_origin_id r) (ro_id x)) (reservation_origins db))"
    using left_join_member by blast
  obtain d where d: "d \<in> set (left_join (\<lambda>x. sql_eq (rr_reservation_source_id r) (rs_id x)) (reservation_sources db))"
    using left_join_member by blast
  obtain e where e: "e \<in> set (left_join (\<lambda>x. sql_eq (rr_market_code_id r) (mc_id x)) (market_codes db))"
    using left_join_member by blast
  obtain n where n: "n \<in> set (left_join (\<lambda>x. sql_eq (rrn_reservation_room_id x) (rr_id r)) (reservation_room_nights db))"
    using left_join_member by blast
  obtain f where f: "f \<in> set (left_join (\<lambda>x. sql_eq (key_col rrn_rate_id n) (rate_id x)) (rates db))"
    using left_join_member by blast
  obtain h where h: "h \<in> set (left_join (\<lambda>x. sql_eq (rr_card_group_id r) (ag_id x)) (agency_cards db))"
    using left_join_member by blast
  let ?j = "\<lparr>rr = r, rrt = a, gc = g, art = b, ro = c, rs = d, mc = e, rrn = n, rt = f, agency = h\<rparr>"
  from assms a g b c d e n f h have "?j \<in> set (from_clause db)"
    unfolding from_clause_def by simp blast
  then show ?thesis by (intro bexI[of _ ?j]) simp_all
qed

lemma getitem_normalised:
  "getitem (map normalise_item r) k =
     map_option (\<lambda>v. if isinstance_date v then isoformat v else v) (getitem r k)"
  by (induction r) (auto simp: getitem_def normalise_item_def)

lemma is_dict_record: "distinct (description sel) \<Longrightarrow> is_dict (map (\<lambda>c. (fst c, snd c db j)) sel)"
  by (simp add: is_dict_def description_def comp_def)

lemma not_date_sum_of_counts: "\<not> isinstance_date (sum_of_counts r)"
  by (simp add: sum_of_counts_def split: option.splits)

lemma extract_returns:
  assumes "pg_cursor_error env = None" "pg_execute_error env = None" "pg_fetchall_error env = None"
  shows "snd (extract_data_from_postgres env tr) =
     Inr (map (\<lambda>j. map (\<lambda>c. (fst c, snd c (source env) j)) select_list) (from_clause (source env)))"
proof -
  from assms obtain data where "snd (extract_data_from_postgres env tr) = Inr data"
    by (simp add: extract_data_from_postgres_def cursor_block_def Let_def)
  with extract_success[OF this] show ?thesis by simp
qed

section \<open>The sample inputs, evaluated\<close>

lemma iso_2024_03_01: "date_isoformat \<lparr>year = 2024, month = 3, day = 1\<rparr> = ''2024-03-01''"
  by (simp add: date_isoformat_shape digit_char_def)

lemma iso_2024_03_05: "date_isoformat \<lparr>year = 2024, month = 3, day = 5\<rparr> = ''2024-03-05''"
  by (simp add: date_isoformat_shape digit_char_def)

lemma from_clause_one_room_db: "from_clause one_room_db = [sample_joined_row]"
  by (simp add: from_clause_def one_room_db_def left_join_def sample_joined_row_def)

lemma record_of_sample_joined_row:
  "map (\<lambda>c. (fst c, snd c one_room_db sample_joined_row)) select_list = sample_record"
  by (simp add: select_list_def sample_joined_row_def sample_room_def sample_record_def
        occupancy_def preview_cancelled_def cancelled_date_def cancelled_states_def
        order_by_asc_def one_room_db_def List.map_filter_simps)

lemma extract_one_room_db:
  "snd (extract_data_from_postgres (accepting_env one_room_db) tr) = Inr [sample_record]"
proof -
  have "snd (extract_data_from_postgres (accepting_env one_room_db) tr) =
     Inr (map (\<lambda>j. map (\<lambda>c. (fst c, snd c (source (accepting_env one_room_db)) j)) select_list)
            (from_clause (source (accepting_env one_room_db))))"
    by (rule extract_returns) (simp_all add: accepting_env_def)
  moreover have "source (accepting_env one_room_db) = one_room_db"
    by (simp add: accepting_env_def)
  ultimately show ?thesis
    by (simp add: from_clause_one_room_db record_of_sample_joined_row)
qed

lemma is_dict_sample_record: "is_dict sample_record"
  by (simp add: is_dict_def sample_record_def)

lemma transform_sample_record: "transform_data [sample_record] = [sample_document]"
proof -
  have "transform_data [sample_record] = [map normalise_item sample_record]"
    using is_dict_sample_record by (simp add: transform_data_map)
  also have "map normalise_item sample_record = sample_document"
    by (simp add: sample_record_def sample_document_def normalise_item_def
          iso_2024_03_01 iso_2024_03_05 del: One_nat_def)
  finally show ?thesis .
qed

section \<open>The correlated subqueries\<close>

lemma sql_eq_Some: "sql_eq a (Some k) \<longleftrightarrow> a = Some k"
  by (cases a) auto

lemma sql_eq_None: "sql_eq a None = False"
  by (cases a) simp_all

lemma length_concat_if:
  "length (concat (map (\<lambda>s. if P s then if Q s then [h s] else [] else []) xs))
   = length (filter (\<lambda>s. P s \<and> Q s) xs)"
  by (induction xs) simp_all

lemma filter_key_unique:
  "distinct (map f xs) \<Longrightarrow>
   length (filter (\<lambda>s. f s = k \<and> R s) xs) = (if \<exists>s\<in>set xs. f s = k \<and> R s then 1 else 0)"
proof (induction xs)
  case Nil
  then show ?case by simp
next
  case (Cons s rest)
  then have d: "distinct (map f rest)" and fresh: "\<forall>x\<in>set rest. f x \<noteq> f s"
    by (simp_all add: image_iff) metis
  show ?case
  proof (cases "f s = k \<and> R s")
    case True
    with fresh have "filter (\<lambda>s. f s = k \<and> R s) rest = []"
      by (auto simp: filter_empty_conv)
    with True show ?thesis by simp
  next
    case False
    with Cons.IH[OF d] show ?thesis by auto
  qed
qed


lemma room_state_count:
  assumes "distinct (map st_id (reservation_states db))"
  shows "length (filter (\<lambda>s2. sql_eq (st_id s2) sid \<and> (G \<and> st_system_value s2 = Some ''cancelled''))
           (reservation_states db))
       = (if G \<and> is_cancelled_state db sid then 1 else 0)"
proof (cases sid)
  case None
  then show ?thesis by (simp add: sql_eq_None is_cancelled_state_def list_ex_iff)
next
  case (Some k)
  have "length (filter (\<lambda>s2. st_id s2 = Some k \<and> (G \<and> st_system_value s2 = Some ''cancelled''))
           (reservation_states db))
      = (if \<exists>s\<in>set (reservation_states db).
              st_id s = Some k \<and> (G \<and> st_system_value s = Some ''cancelled'') then 1 else 0)"
    using assms by (rule filter_key_unique)
  then show ?thesis
    unfolding Some is_cancelled_state_def list_ex_iff sql_eq_Some by auto
qed

lemma preview_cancelled_count:
  assumes "distinct (map st_id (reservation_states db))"
  shows "preview_cancelled db r = PInt (int (cancelled_rooms_of_guest db r))"
proof -
  have per_room: "length (concat (map (\<lambda>s2.
            if sql_eq (st_id s2) (rr_reservation_state_id r2)
            then if sql_eq (rr_master_guest_id r2) (rr_master_guest_id r)
                    \<and> st_system_value s2 = Some ''cancelled'' then [(r2, s2)] else []
            else []) (reservation_states db)))
      = (if sql_eq (rr_master_guest_id r2) (rr_master_guest_id r)
            \<and> is_cancelled_state db (rr_reservation_state_id r2) then 1 else 0)" for r2
    unfolding length_concat_if[where h = "Pair r2"] using assms by (rule room_state_count)
  have "length (concat (map (\<lambda>r2. concat (map (\<lambda>s2.
            if sql_eq (st_id s2) (rr_reservation_state_id r2)
            then if sql_eq (rr_master_guest_id r2) (rr_master_guest_id r)
                    \<and> st_system_value s2 = Some ''cancelled'' then [(r2, s2)] else []
            else []) (reservation_states db))) rooms))
      = length (filter (\<lambda>r2. sql_eq (rr_master_guest_id r2) (rr_master_guest_id r)
                          \<and> is_cancelled_state db (rr_reservation_state_id r2)) rooms)" for rooms
    by (induction rooms) (simp_all add: per_room)
  then show ?thesis
    by (simp add: preview_cancelled_def cancelled_rooms_of_guest_def)
qed

text \<open>The first row of an ascending order is a least one.\<close>

lemma sort_key_head:
  assumes "xs \<noteq> []"
  shows "\<exists>y ys. sort_key f xs = y # ys \<and> y \<in> set xs \<and> (\<forall>x\<in>set xs. f y \<le> f x)"
proof (cases "sort_key f xs")
  case Nil
  then have "length (sort_key f xs) = 0" by simp
  with assms show ?thesis by simp
next
  case (Cons y ys)
  have "sorted (map f (sort_key f xs))" by (rule sorted_sort_key)
  with Cons have "\<forall>x\<in>set ys. f y \<le> f x" by simp
  moreover have "set xs = set (y # ys)"
    using Cons set_sort[of f xs] by simp
  ultimately show ?thesis using Cons by auto
qed

lemma set_map_filter:
  "set (List.map_filter f xs) = {y. \<exists>x\<in>set xs. f x = Some y}"
  by (induction xs) (auto split: option.splits)

lemma set_concat_if:
  "y \<in> set (concat (map (\<lambda>s. if P s then if Q s then [h s] else [] else []) xs))
   \<longleftrightarrow> (\<exists>s\<in>set xs. P s \<and> Q s \<and> y = h s)"
  by (induction xs) auto

lemma in_cancelled_states:
  "v \<in> set (cancelled_states db r) \<longleftrightarrow>
     (\<exists>rrs\<in>set (reservation_room_states db).
        sql_eq (rrs_reservation_room_id rrs) (rr_id r)
        \<and> is_cancelled_state db (rrs_reservation_state_id rrs) \<and> v = rrs_created_at rrs)"
proof -
  have inner: "v \<in> set (concat (map (\<lambda>st. if sql_eq (st_id st) (rrs_reservation_state_id rrs)
            then if sql_eq (rrs_reservation_room_id rrs) (rr_id r)
                    \<and> st_system_value st = Some ''cancelled'' then [rrs_created_at rrs] else []
            else []) (reservation_states db)))
      \<longleftrightarrow> sql_eq (rrs_reservation_room_id rrs) (rr_id r)
        \<and> is_cancelled_state db (rrs_reservation_state_id rrs) \<and> v = rrs_created_at rrs" for rrs
    unfolding set_concat_if is_cancelled_state_def list_ex_iff by blast
  let ?F = "\<lambda>rrs. concat (map (\<lambda>st.
            if sql_eq (st_id st) (rrs_reservation_state_id rrs)
            then if sql_eq (rrs_reservation_room_id rrs) (rr_id r)
                    \<and> st_system_value st = Some ''cancelled'' then [rrs_created_at rrs] else []
            else []) (reservation_states db))"
  let ?C = "\<lambda>rrs. sql_eq (rrs_reservation_room_id rrs) (rr_id r)
        \<and> is_cancelled_state db (rrs_reservation_state_id rrs) \<and> v = rrs_created_at rrs"
  have "v \<in> set (concat (map ?F tbl)) \<longleftrightarrow> (\<exists>rrs\<in>set tbl. ?C rrs)" for tbl
  proof (induction tbl)
    case Nil
    show ?case by simp
  next
    case (Cons a tbl)
    have "v \<in> set (concat (map ?F (a # tbl))) \<longleftrightarrow> v \<in> set (?F a) \<or> v \<in> set (concat (map ?F tbl))"
      by (simp only: list.map concat.simps set_append Un_iff)
    also have "\<dots> \<longleftrightarrow> ?C a \<or> (\<exists>rrs\<in>set tbl. ?C rrs)"
      by (simp only: inner Cons.IH)
    also have "\<dots> \<longleftrightarrow> (\<exists>rrs\<in>set (a # tbl). ?C rrs)"
      by (simp only: list.set bex_simps insert_iff)
    finally show ?case .
  qed
  then show ?thesis by (simp only: cancelled_states_def)
qed

lemma set_cancelled_states:
  "set (List.map_filter (\<lambda>v. v) (cancelled_states db r)) = set (cancellation_times db r)"
proof -
  have "t \<in> set (List.map_filter (\<lambda>v. v) (cancelled_states db r))
      \<longleftrightarrow> t \<in> set (cancellation_times db r)" for t
    unfolding set_map_filter cancellation_times_def
    by (simp add: in_cancelled_states) (metis (mono_tags, lifting))
  then show ?thesis by blast
qed

lemma cancelled_date_none:
  assumes "cancellation_times db r = []"
  shows "cancelled_date db r = PNone"
proof -
  from assms have "set (List.map_filter (\<lambda>v. v) (cancelled_states db r)) = {}"
    by (simp add: set_cancelled_states)
  then have "List.map_filter (\<lambda>v. v) (cancelled_states db r) = []" by simp
  then have o: "order_by_asc (cancelled_states db r) = filter (\<lambda>v. v = None) (cancelled_states db r)"
    by (simp add: order_by_asc_def)
  show ?thesis
  proof (cases "filter (\<lambda>v. v = None) (cancelled_states db r)")
    case Nil
    with o show ?thesis by (simp add: cancelled_date_def)
  next
    case (Cons v vs)
    then have "v \<in> set (filter (\<lambda>v. v = None) (cancelled_states db r))" by simp
    then have "v = None" by simp
    with o Cons show ?thesis by (simp add: cancelled_date_def)
  qed
qed

lemma cancelled_date_earliest:
  assumes "cancellation_times db r \<noteq> []"
  shows "\<exists>t\<in>set (cancellation_times db r). cancelled_date db r = PDateTime t
           \<and> (\<forall>t'\<in>set (cancellation_times db r). datetime_fields t \<le> datetime_fields t')"
proof -
  let ?ts = "List.map_filter (\<lambda>v. v) (cancelled_states db r)"
  from assms have "set ?ts \<noteq> {}" by (simp add: set_cancelled_states)
  then have "?ts \<noteq> []" by auto
  from sort_key_head[OF this, of datetime_fields] obtain y ys
    where s: "sort_key datetime_fields ?ts = y # ys" and mem: "y \<in> set ?ts"
      and least: "\<forall>x\<in>set ?ts. datetime_fields y \<le> datetime_fields x"
    by blast
  from s have "cancelled_date db r = PDateTime y"
    by (simp add: cancelled_date_def order_by_asc_def)
  with mem least show ?thesis
    unfolding set_cancelled_states by blast
qed

section \<open>The transformer: claims C1, C4 and C10\<close>

text \<open>
  C1. On records that are dictionaries (as every record built by the extractor is),
  \<open>transform_data\<close> replaces each value that is a \<open>date\<close> or a \<open>datetime\<close> by the text
  \<open>isoformat\<close> gives for it and leaves every other value as it is, \<open>None\<close> included; the
  rule looks at the value only, never at the name of the field. Afterwards no value is a
  \<open>date\<close> or a \<open>datetime\<close>, and when the values were text, numbers, booleans, null, dates
  or date-times, every value is text, a number, a boolean or null. The document loop of
  \<^verbatim>\<open>scriptrans.py\<close> applies the same rule to each row. The text of a date is
  \<^verbatim>\<open>YYYY-MM-DD\<close>: four digits of the year, two of the month, two of the day.
\<close>

theorem transform_data_iso_rule:
  assumes "\<forall>r\<in>set records. is_dict r"
  shows "transform_data records =
           map (map (\<lambda>(k, v). (k, case v of PDate d \<Rightarrow> PStr (date_isoformat d)
                                      | PDateTime t \<Rightarrow> PStr (datetime_isoformat t)
                                      | _ \<Rightarrow> v))) records
       \<and> (\<forall>r\<in>set (transform_data records). \<forall>v\<in>set (dict_values r). \<not> isinstance_date v)
       \<and> ((\<forall>r\<in>set records. \<forall>v\<in>set (dict_values r). source_kind v) \<longrightarrow>
            (\<forall>r\<in>set (transform_data records). \<forall>v\<in>set (dict_values r). document_safe v))
       \<and> (\<forall>r\<in>set (rows_to_records colnames rows). is_dict r)
       \<and> scriptrans_documents colnames rows =
           map (map (\<lambda>(k, v). (k, case v of PDate d \<Rightarrow> PStr (date_isoformat d)
                                      | PDateTime t \<Rightarrow> PStr (datetime_isoformat t)
                                      | _ \<Rightarrow> v))) (rows_to_records colnames rows)
       \<and> (year d < 10000 \<and> month d < 100 \<and> day d < 100 \<longrightarrow>
            date_isoformat d =
              [digit_char (year d div 1000), digit_char (year d div 100), digit_char (year d div 10),
               digit_char (year d), CHR ''-'', digit_char (month d div 10), digit_char (month d),
               CHR ''-'', digit_char (day d div 10), digit_char (day d)])"
proof -
  have rule: "transform_data records = map (map normalise_item) records"
    using assms by (rule transform_data_map)
  have no_date: "\<forall>r\<in>set (transform_data records). \<forall>v\<in>set (dict_values r). \<not> isinstance_date v"
    by (auto simp: rule dict_values_def not_date_normalise_item)
  have closure: "(\<forall>r\<in>set records. \<forall>v\<in>set (dict_values r). source_kind v) \<longrightarrow>
      (\<forall>r\<in>set (transform_data records). \<forall>v\<in>set (dict_values r). document_safe v)"
    by (auto simp: rule dict_values_def intro!: safe_normalise_item)
  have extracted: "\<forall>r\<in>set (rows_to_records colnames rows). is_dict r"
    by (simp add: is_dict_rows_to_records)
  have "scriptrans_documents colnames rows = transform_data (rows_to_records colnames rows)"
    by (simp add: scriptrans_documents_def transform_data_def rows_to_records_def)
  with extracted
  have script: "scriptrans_documents colnames rows =
      map (map normalise_item) (rows_to_records colnames rows)"
    by (simp add: transform_data_map)
  have shape: "year d < 10000 \<and> month d < 100 \<and> day d < 100 \<longrightarrow>
      date_isoformat d =
        [digit_char (year d div 1000), digit_char (year d div 100), digit_char (year d div 10),
         digit_char (year d), CHR ''-'', digit_char (month d div 10), digit_char (month d),
         CHR ''-'', digit_char (day d div 10), digit_char (day d)]"
    by (simp add: date_isoformat_shape)
  from rule no_date closure extracted script shape show ?thesis
    unfolding normalise_item_rule by blast
qed

theorem transform_data_iso_rule_witness:
  "is_dict [(''arrival_date'', PDate \<lparr>year = 2024, month = 3, day = 1\<rparr>),
            (''booking_date'', PDateTime \<lparr>dt_year = 2024, dt_month = 2, dt_day = 10, dt_hour = 9,
               dt_minute = 30, dt_second = 0, dt_microsecond = 0\<rparr>),
            (''stay'', PInt 4), (''season'', PNone)]
   \<and> transform_data
       [[(''arrival_date'', PDate \<lparr>year = 2024, month = 3, day = 1\<rparr>),
         (''booking_date'', PDateTime \<lparr>dt_year = 2024, dt_month = 2, dt_day = 10, dt_hour = 9,
            dt_minute = 30, dt_second = 0, dt_microsecond = 0\<rparr>),
         (''stay'', PInt 4), (''season'', PNone)]]
     = [[(''arrival_date'', PStr ''2024-03-01''), (''booking_date'', PStr ''2024-02-10T09:30:00''),
         (''stay'', PInt 4), (''season'', PNone)]]"
proof -
  let ?r = "[(''arrival_date'', PDate \<lparr>year = 2024, month = 3, day = 1\<rparr>),
            (''booking_date'', PDateTime \<lparr>dt_year = 2024, dt_month = 2, dt_day = 10, dt_hour = 9,
               dt_minute = 30, dt_second = 0, dt_microsecond = 0\<rparr>),
            (''stay'', PInt 4), (''season'', PNone)]"
  have d: "is_dict ?r" by (simp add: is_dict_def)
  then have h: "\<forall>r\<in>set [?r]. is_dict r" by simp
  have iso1: "date_isoformat \<lparr>year = 2024, month = 3, day = 1\<rparr> = ''2024-03-01''"
    by (simp add: date_isoformat_shape digit_char_def)
  have iso2: "datetime_isoformat \<lparr>dt_year = 2024, dt_month = 2, dt_day = 10, dt_hour = 9,
               dt_minute = 30, dt_second = 0, dt_microsecond = 0\<rparr> = ''2024-02-10T09:30:00''"
    by (simp add: datetime_isoformat_shape digit_char_def)
  from transform_data_iso_rule[OF h] d show ?thesis
    by (simp add: iso1 iso2 del: One_nat_def)
qed

text \<open>
  C4. \<open>transform_data\<close> is idempotent on lists of dictionaries: a second pass finds no
  \<open>date\<close> and no \<open>datetime\<close> and returns what the first pass returned.
\<close>

theorem transform_data_idempotent:
  assumes "\<forall>r\<in>set records. is_dict r"
  shows "transform_data (transform_data records) = transform_data records"
proof -
  have first: "transform_data records = map (map normalise_item) records"
    using assms by (rule transform_data_map)
  have "\<forall>r\<in>set (map (map normalise_item) records). is_dict r"
    using assms by (simp add: is_dict_normalised)
  then have "transform_data (map (map normalise_item) records) =
      map (map normalise_item) (map (map normalise_item) records)"
    by (rule transform_data_map)
  also have "\<dots> = map (map normalise_item) records"
    by (simp add: comp_def normalise_item_idem)
  finally show ?thesis by (simp add: first)
qed

theorem transform_data_idempotent_witness:
  "is_dict [(''departure_date'', PDate \<lparr>year = 2024, month = 3, day = 5\<rparr>), (''occupancy'', PInt 3)]
   \<and> transform_data
       [[(''departure_date'', PDate \<lparr>year = 2024, month = 3, day = 5\<rparr>), (''occupancy'', PInt 3)]]
     = [[(''departure_date'', PStr ''2024-03-05''), (''occupancy'', PInt 3)]]
   \<and> transform_data (transform_data
       [[(''departure_date'', PDate \<lparr>year = 2024, month = 3, day = 5\<rparr>), (''occupancy'', PInt 3)]])
     = [[(''departure_date'', PStr ''2024-03-05''), (''occupancy'', PInt 3)]]"
proof -
  let ?r = "[(''departure_date'', PDate \<lparr>year = 2024, month = 3, day = 5\<rparr>), (''occupancy'', PInt 3)]"
  have d: "is_dict ?r" by (simp add: is_dict_def)
  then have h: "\<forall>r\<in>set [?r]. is_dict r" by simp
  have iso: "date_isoformat \<lparr>year = 2024, month = 3, day = 5\<rparr> = ''2024-03-05''"
    by (simp add: date_isoformat_shape digit_char_def)
  have once: "transform_data [?r] = [[(''departure_date'', PStr ''2024-03-05''), (''occupancy'', PInt 3)]]"
    using h by (simp add: transform_data_map normalise_item_def iso)
  from transform_data_idempotent[OF h] once d show ?thesis by simp
qed

text \<open>
  C10. \<open>transform_data\<close> returns as many records as it was given, in the same order,
  and the record at each position has the keys of the input record at that position, in
  the same order: only values change.
\<close>

theorem transform_data_frame:
  "length (transform_data records) = length records
   \<and> map keys (transform_data records) = map keys records
   \<and> (\<forall>i<length records. set (keys (transform_data records ! i)) = set (keys (records ! i)))"
proof -
  have ks: "map keys (transform_data records) = map keys records"
    by (simp add: transform_data_def keys_def comp_def keys_items_loop)
  have "\<forall>i<length records. keys (transform_data records ! i) = keys (records ! i)"
    by (simp add: transform_data_def keys_def keys_items_loop)
  with ks show ?thesis by (simp add: transform_data_def)
qed

theorem transform_data_frame_witness:
  "length (transform_data
      [[(''arrival_date'', PDate \<lparr>year = 2024, month = 3, day = 1\<rparr>), (''stay'', PInt 4)],
       [(''arrival_date'', PNone), (''stay'', PInt 2)]]) = 2
   \<and> map keys (transform_data
      [[(''arrival_date'', PDate \<lparr>year = 2024, month = 3, day = 1\<rparr>), (''stay'', PInt 4)],
       [(''arrival_date'', PNone), (''stay'', PInt 2)]])
     = [[''arrival_date'', ''stay''], [''arrival_date'', ''stay'']]"
  using transform_data_frame[of
      "[[(''arrival_date'', PDate \<lparr>year = 2024, month = 3, day = 1\<rparr>), (''stay'', PInt 4)],
        [(''arrival_date'', PNone), (''stay'', PInt 2)]]"]
  by (simp add: keys_def)

section \<open>The pipeline: claims C2, C5, C6 and C7\<close>

text \<open>What the \<^verbatim>\<open>try\<close> blocks leave behind: each connection is opened at most once, exactly
  when its variable is bound, and nothing has been closed yet (the cursor of
  \<^verbatim>\<open>extract_data_from_postgres\<close> apart, which its \<^verbatim>\<open>with\<close> block closes).\<close>

lemma main_try_connections:
  "main_try env = (tr, pg_conn, mongo_client, raised) \<Longrightarrow>
   count_list tr PgConnect = (if pg_conn then 1 else 0) \<and> count_list tr PgClose = 0
   \<and> count_list tr MongoConnect = (if mongo_client then 1 else 0) \<and> count_list tr MongoClose = 0
   \<and> count_list tr PgCursorOpen = count_list tr PgCursorClose"
  by (auto simp: main_try_def get_postgres_connection_def extract_data_from_postgres_def
        cursor_block_def get_mongo_client_def load_data_to_mongo_def Let_def
      split: option.splits sum.splits if_splits prod.splits)

lemma scriptrans_try_connections:
  "scriptrans_try env = (tr, pg_conn, pg_cursor, mongo_client, raised) \<Longrightarrow>
   count_list tr PgConnect = (if pg_conn then 1 else 0) \<and> count_list tr PgClose = 0
   \<and> count_list tr MongoConnect = (if mongo_client then 1 else 0) \<and> count_list tr MongoClose = 0
   \<and> count_list tr PgCursorOpen = (if pg_cursor then 1 else 0) \<and> count_list tr PgCursorClose = 0"
  by (auto simp: scriptrans_try_def Let_def split: option.splits sum.splits if_splits)

lemma main_result: "snd (main env) = Inr PNone"
  by (simp add: main_def Let_def split: prod.splits)

lemma scriptrans_result: "snd (scriptrans env) = Inr PNone"
  by (simp add: scriptrans_def Let_def split: prod.splits)

lemma main_logs_raised:
  "main_try env = (tr, pg_conn, mongo_client, Some e) \<Longrightarrow>
   LogError (MainScriptError e) \<in> set (fst (main env))"
  by (simp add: main_def Let_def)

lemma scriptrans_prints_raised:
  "scriptrans_try env = (tr, pg_conn, pg_cursor, mongo_client, Some e) \<Longrightarrow>
   Print (ErrorOccurred e) \<in> set (fst (scriptrans env))"
  by (simp add: scriptrans_def Let_def)

text \<open>
  C5. Whatever the two stores answer, and so on every path on which a stage raises, the
  trace of a run of \<^verbatim>\<open>main\<close> and of \<^verbatim>\<open>scriptrans.py\<close> closes each PostgreSQL connection,
  each cursor and each MongoDB client it has opened: at the end none is open.
\<close>

theorem connections_closed_on_every_path:
  "open_after PgConnect PgClose (fst (main env)) = 0
   \<and> open_after MongoConnect MongoClose (fst (main env)) = 0
   \<and> open_after PgCursorOpen PgCursorClose (fst (main env)) = 0
   \<and> open_after PgConnect PgClose (fst (scriptrans env)) = 0
   \<and> open_after MongoConnect MongoClose (fst (scriptrans env)) = 0
   \<and> open_after PgCursorOpen PgCursorClose (fst (scriptrans env)) = 0"
proof -
  obtain tr pg_conn mongo_client raised
    where m: "main_try env = (tr, pg_conn, mongo_client, raised)"
    by (cases "main_try env") auto
  from main_try_connections[OF m]
  have a: "open_after PgConnect PgClose (fst (main env)) = 0
      \<and> open_after MongoConnect MongoClose (fst (main env)) = 0
      \<and> open_after PgCursorOpen PgCursorClose (fst (main env)) = 0"
    by (cases raised) (simp_all add: main_def m open_after_def Let_def)
  obtain tr' pg_conn' pg_cursor' mongo_client' raised'
    where s: "scriptrans_try env = (tr', pg_conn', pg_cursor', mongo_client', raised')"
    by (cases "scriptrans_try env") auto
  from scriptrans_try_connections[OF s]
  have b: "open_after PgConnect PgClose (fst (scriptrans env)) = 0
      \<and> open_after MongoConnect MongoClose (fst (scriptrans env)) = 0
      \<and> open_after PgCursorOpen PgCursorClose (fst (scriptrans env)) = 0"
    by (cases raised') (simp_all add: scriptrans_def s open_after_def Let_def)
  from a b show ?thesis by simp
qed

theorem connections_closed_on_every_path_witness:
  "fst (main failing_query_env) =
     [Call GetPostgresConnection, PgConnect, LogInfo PostgresConnected,
      Call ExtractDataFromPostgres, PgCursorOpen, PgExecute, PgCursorClose,
      LogError (ExtractionError (Psycopg2Error ''syntax error'')),
      LogError (MainScriptError (Psycopg2Error ''syntax error'')),
      PgClose, LogInfo PostgresClosed]
   \<and> open_after PgConnect PgClose (fst (main failing_query_env)) = 0
   \<and> open_after MongoConnect MongoClose (fst (main failing_query_env)) = 0"
proof -
  have "fst (main failing_query_env) =
     [Call GetPostgresConnection, PgConnect, LogInfo PostgresConnected,
      Call ExtractDataFromPostgres, PgCursorOpen, PgExecute, PgCursorClose,
      LogError (ExtractionError (Psycopg2Error ''syntax error'')),
      LogError (MainScriptError (Psycopg2Error ''syntax error'')),
      PgClose, LogInfo PostgresClosed]"
    by (simp add: main_def main_try_def get_postgres_connection_def
          extract_data_from_postgres_def cursor_block_def failing_query_env_def
          accepting_env_def Let_def)
  with connections_closed_on_every_path[of failing_query_env] show ?thesis by simp
qed

text \<open>
  C6. \<^verbatim>\<open>main\<close> and \<^verbatim>\<open>scriptrans.py\<close> never let an exception out: whatever the stores answer, the
  run returns normally and the exit status is 0. When a stage raises (the connection to
  PostgreSQL, the extraction, the MongoDB client, the load), the exception is logged by
  the handler of \<^verbatim>\<open>main\<close> (printed by the one of \<^verbatim>\<open>scriptrans.py\<close>).
\<close>

theorem run_never_propagates:
  "snd (main env) = Inr PNone \<and> exit_status (snd (main env)) = 0
   \<and> (pg_connect_error env = Some e \<longrightarrow> LogError (MainScriptError e) \<in> set (fst (main env)))
   \<and> (pg_connect_error env = None \<and> snd (extract_data_from_postgres env tr) = Inl e \<longrightarrow>
        LogError (MainScriptError e) \<in> set (fst (main env)))
   \<and> (pg_connect_error env = None \<and> snd (extract_data_from_postgres env tr) = Inr extracted
        \<and> mongo_client_error env = Some e \<longrightarrow>
        LogError (MainScriptError e) \<in> set (fst (main env)))
   \<and> (pg_connect_error env = None \<and> snd (extract_data_from_postgres env tr) = Inr extracted
        \<and> mongo_client_error env = None
        \<and> snd (load_data_to_mongo env tr (transform_data extracted)) = Inl e \<longrightarrow>
        LogError (MainScriptError e) \<in> set (fst (main env)))
   \<and> snd (scriptrans env) = Inr PNone \<and> exit_status (snd (scriptrans env)) = 0
   \<and> (snd (snd (snd (snd (scriptrans_try env)))) = Some e \<longrightarrow>
        Print (ErrorOccurred e) \<in> set (fst (scriptrans env)))"
proof -
  have at_connect: "pg_connect_error env = Some e \<longrightarrow> LogError (MainScriptError e) \<in> set (fst (main env))"
    by (auto simp: main_def main_try_def get_postgres_connection_def Let_def)
  have at_extract: "pg_connect_error env = None \<and> snd (extract_data_from_postgres env tr) = Inl e \<longrightarrow>
        LogError (MainScriptError e) \<in> set (fst (main env))"
    by (auto simp: main_def main_try_def get_postgres_connection_def
          extract_data_from_postgres_def cursor_block_def Let_def
        split: option.splits if_splits)
  have at_client: "pg_connect_error env = None \<and> snd (extract_data_from_postgres env tr) = Inr extracted
        \<and> mongo_client_error env = Some e \<longrightarrow>
        LogError (MainScriptError e) \<in> set (fst (main env))"
    by (auto simp: main_def main_try_def get_postgres_connection_def
          extract_data_from_postgres_def cursor_block_def get_mongo_client_def Let_def
        split: option.splits if_splits)
  have at_load: "pg_connect_error env = None \<and> snd (extract_data_from_postgres env tr) = Inr extracted
        \<and> mongo_client_error env = None
        \<and> snd (load_data_to_mongo env tr (transform_data extracted)) = Inl e \<longrightarrow>
        LogError (MainScriptError e) \<in> set (fst (main env))"
    by (auto simp: main_def main_try_def get_postgres_connection_def
          extract_data_from_postgres_def cursor_block_def get_mongo_client_def
          load_data_to_mongo_def Let_def
        split: option.splits if_splits sum.splits)
  have at_script: "snd (snd (snd (snd (scriptrans_try env)))) = Some e \<longrightarrow>
        Print (ErrorOccurred e) \<in> set (fst (scriptrans env))"
    by (cases "scriptrans_try env") (auto simp: scriptrans_prints_raised)
  from at_connect at_extract at_client at_load at_script show ?thesis
    by (simp add: main_result scriptrans_result)
qed

theorem run_never_propagates_witness:
  "pg_connect_error failing_query_env = None
   \<and> snd (extract_data_from_postgres failing_query_env []) = Inl (Psycopg2Error ''syntax error'')
   \<and> LogError (MainScriptError (Psycopg2Error ''syntax error'')) \<in> set (fst (main failing_query_env))
   \<and> snd (main failing_query_env) = Inr PNone
   \<and> exit_status (snd (main failing_query_env)) = 0"
proof -
  have a: "pg_connect_error failing_query_env = None"
    by (simp add: failing_query_env_def accepting_env_def)
  have b: "snd (extract_data_from_postgres failing_query_env []) = Inl (Psycopg2Error ''syntax error'')"
    by (simp add: extract_data_from_postgres_def cursor_block_def failing_query_env_def
          accepting_env_def)
  from run_never_propagates[of failing_query_env "Psycopg2Error ''syntax error''" "[]"] a b
  show ?thesis by simp
qed

text \<open>
  C7. When \<^verbatim>\<open>cursor.execute\<close> raises in \<^verbatim>\<open>extract_data_from_postgres\<close>, the function raises
  that exception and returns no record; \<^verbatim>\<open>main\<close> then logs it and closes the PostgreSQL
  connection: \<^verbatim>\<open>transform_data\<close>, \<^verbatim>\<open>get_mongo_client\<close> and \<^verbatim>\<open>load_data_to_mongo\<close> are never
  entered and no bulk write reaches the sink. The same failure in \<^verbatim>\<open>scriptrans.py\<close> writes
  nothing either.
\<close>

theorem query_failure_aborts_run:
  assumes "pg_connect_error env = None" and "pg_cursor_error env = None"
    and "pg_execute_error env = Some e"
  shows "snd (extract_data_from_postgres env tr) = Inl e
       \<and> fst (main env) =
           [Call GetPostgresConnection, PgConnect, LogInfo PostgresConnected,
            Call ExtractDataFromPostgres, PgCursorOpen, PgExecute, PgCursorClose]
           @ (if is_psycopg2_error e then [LogError (ExtractionError e)] else [])
           @ [LogError (MainScriptError e), PgClose, LogInfo PostgresClosed]
       \<and> Call TransformData \<notin> set (fst (main env))
       \<and> Call GetMongoClient \<notin> set (fst (main env))
       \<and> Call LoadDataToMongo \<notin> set (fst (main env))
       \<and> write_calls (fst (main env)) = 0
       \<and> write_calls (fst (scriptrans env)) = 0"
proof -
  have surfaces: "snd (extract_data_from_postgres env tr) = Inl e"
    using assms by (simp add: extract_data_from_postgres_def cursor_block_def)
  have trace: "fst (main env) =
           [Call GetPostgresConnection, PgConnect, LogInfo PostgresConnected,
            Call ExtractDataFromPostgres, PgCursorOpen, PgExecute, PgCursorClose]
           @ (if is_psycopg2_error e then [LogError (ExtractionError e)] else [])
           @ [LogError (MainScriptError e), PgClose, LogInfo PostgresClosed]"
    using assms
    by (simp add: main_def main_try_def get_postgres_connection_def
          extract_data_from_postgres_def cursor_block_def Let_def)
  have script: "write_calls (fst (scriptrans env)) = 0"
    using assms
    by (simp add: scriptrans_def scriptrans_try_def write_calls_def Let_def
        split: option.splits)
  from surfaces script show ?thesis
    unfolding trace by (simp add: write_calls_def)
qed

theorem query_failure_aborts_run_witness:
  "pg_connect_error failing_query_env = None \<and> pg_cursor_error failing_query_env = None
   \<and> pg_execute_error failing_query_env = Some (Psycopg2Error ''syntax error'')
   \<and> snd (extract_data_from_postgres failing_query_env []) = Inl (Psycopg2Error ''syntax error'')
   \<and> write_calls (fst (main failing_query_env)) = 0
   \<and> Call LoadDataToMongo \<notin> set (fst (main failing_query_env))"
proof -
  have a: "pg_connect_error failing_query_env = None"
    and b: "pg_cursor_error failing_query_env = None"
    and c: "pg_execute_error failing_query_env = Some (Psycopg2Error ''syntax error'')"
    by (simp_all add: failing_query_env_def accepting_env_def)
  from query_failure_aborts_run[OF a b c, of "[]"] a b c show ?thesis
    by (simp add: write_calls_def)
qed

text \<open>
  C2, as the code has it. \<^verbatim>\<open>load_data_to_mongo\<close> returns \<open>None\<close> whenever it returns; the
  count goes to the log. On an empty list it makes no write call and logs that there is
  no document to insert. On a non-empty list of \<open>n\<close> records that the sink accepts
  (\<^verbatim>\<open>inserted_ids\<close> has \<open>n\<close> entries) it makes one bulk write with the \<open>n\<close> records and logs
  that \<open>n\<close> documents were inserted.
\<close>

theorem load_logs_count_and_returns_none:
  "(records = [] \<longrightarrow>
      load_data_to_mongo env tr records =
        (tr @ [Call LoadDataToMongo, LogInfo NoDocumentToInsert], Inr PNone)
      \<and> write_calls (fst (load_data_to_mongo env tr records)) = write_calls tr)
   \<and> (records \<noteq> [] \<and> insert_many env records = Inr (length records) \<longrightarrow>
      load_data_to_mongo env tr records =
        (tr @ [Call LoadDataToMongo, InsertMany records, LogInfo (DocumentsInserted (length records))],
         Inr PNone)
      \<and> write_calls (fst (load_data_to_mongo env tr records)) = write_calls tr + 1)
   \<and> snd (load_data_to_mongo env tr records) \<noteq> Inr (PInt n)"
  by (auto simp: load_data_to_mongo_def write_calls_def Let_def split: sum.splits)

theorem load_logs_count_and_returns_none_witness:
  "insert_many (accepting_env one_room_db) [[(''occupancy'', PInt 3)], [(''occupancy'', PInt 1)]] = Inr 2
   \<and> load_data_to_mongo (accepting_env one_room_db) [] [[(''occupancy'', PInt 3)], [(''occupancy'', PInt 1)]] =
       ([Call LoadDataToMongo, InsertMany [[(''occupancy'', PInt 3)], [(''occupancy'', PInt 1)]],
         LogInfo (DocumentsInserted 2)], Inr PNone)"
proof -
  have a: "insert_many (accepting_env one_room_db) [[(''occupancy'', PInt 3)], [(''occupancy'', PInt 1)]]
      = Inr (length [[(''occupancy'', PInt 3)], [(''occupancy'', PInt 1)]])"
    by (simp add: accepting_env_def)
  from load_logs_count_and_returns_none[of "[[(''occupancy'', PInt 3)], [(''occupancy'', PInt 1)]]"
      "accepting_env one_room_db" "[]"] a
  show ?thesis by simp
qed

text \<open>
  C2, as the specification states it, fails: on one record that the sink accepts the
  function returns \<open>None\<close>, not the count 1, and on the empty list it returns \<open>None\<close>, not 0.
\<close>

theorem load_returns_count_counterexample:
  "insert_many (accepting_env one_room_db) [[(''occupancy'', PInt 3)]] = Inr 1
   \<and> snd (load_data_to_mongo (accepting_env one_room_db) [] [[(''occupancy'', PInt 3)]]) = Inr PNone
   \<and> snd (load_data_to_mongo (accepting_env one_room_db) [] [[(''occupancy'', PInt 3)]]) \<noteq> Inr (PInt 1)
   \<and> snd (load_data_to_mongo (accepting_env one_room_db) [] []) \<noteq> Inr (PInt 0)"
  by (simp add: load_data_to_mongo_def accepting_env_def Let_def)

section \<open>The extractor: claims C3, C8 and C9\<close>

text \<open>
  C3, as the code has it. The field set is fixed and has 26 names, those of
  \<^verbatim>\<open>target_fields\<close>, all different. Every record that \<^verbatim>\<open>extract_data_from_postgres\<close> returns
  and every document that \<^verbatim>\<open>scriptrans.py\<close> writes has exactly these keys, in this order, so
  the field set is the same for all records of a batch; and the four fields
  \<^verbatim>\<open>no_show_date\<close>, \<^verbatim>\<open>preference_guest\<close>, \<^verbatim>\<open>preference_reservation\<close> and \<^verbatim>\<open>season\<close> are null in
  each of them.
\<close>

theorem record_field_set:
  "length target_fields = 26 \<and> distinct target_fields
   \<and> (snd (extract_data_from_postgres env tr) = Inr data \<longrightarrow>
        (\<forall>r\<in>set data.
           keys r = target_fields
           \<and> getitem r ''no_show_date'' = Some PNone
           \<and> getitem r ''preference_guest'' = Some PNone
           \<and> getitem r ''preference_reservation'' = Some PNone
           \<and> getitem r ''season'' = Some PNone))
   \<and> (InsertMany docs \<in> set (fst (scriptrans env)) \<longrightarrow>
        (\<forall>r\<in>set docs.
           keys r = target_fields
           \<and> getitem r ''no_show_date'' = Some PNone
           \<and> getitem r ''preference_guest'' = Some PNone
           \<and> getitem r ''preference_reservation'' = Some PNone
           \<and> getitem r ''season'' = Some PNone))"
proof -
  have extracted: "snd (extract_data_from_postgres env tr) = Inr data \<longrightarrow>
        (\<forall>r\<in>set data.
           keys r = target_fields
           \<and> getitem r ''no_show_date'' = Some PNone
           \<and> getitem r ''preference_guest'' = Some PNone
           \<and> getitem r ''preference_reservation'' = Some PNone
           \<and> getitem r ''season'' = Some PNone)"
  proof (intro impI ballI)
    fix r
    assume ok: "snd (extract_data_from_postgres env tr) = Inr data" and mem: "r \<in> set data"
    from mem obtain j where "r = map (\<lambda>c. (fst c, snd c (source env) j)) select_list"
      unfolding extract_success[OF ok] by auto
    then show "keys r = target_fields
           \<and> getitem r ''no_show_date'' = Some PNone
           \<and> getitem r ''preference_guest'' = Some PNone
           \<and> getitem r ''preference_reservation'' = Some PNone
           \<and> getitem r ''season'' = Some PNone"
      by (simp add: keys_of_record description_select_list getitem_select_list)
  qed
  have written: "InsertMany docs \<in> set (fst (scriptrans env)) \<longrightarrow>
        (\<forall>r\<in>set docs.
           keys r = target_fields
           \<and> getitem r ''no_show_date'' = Some PNone
           \<and> getitem r ''preference_guest'' = Some PNone
           \<and> getitem r ''preference_reservation'' = Some PNone
           \<and> getitem r ''season'' = Some PNone)"
  proof (intro impI ballI)
    fix r
    assume ins: "InsertMany docs \<in> set (fst (scriptrans env))" and mem: "r \<in> set docs"
    from mem obtain j
      where r: "r = items_loop 0 (map (\<lambda>c. (fst c, snd c (source env) j)) scriptrans_select_list)"
      unfolding scriptrans_inserted[OF ins] by auto
    let ?row = "map (\<lambda>c. (fst c, snd c (source env) j)) scriptrans_select_list"
    have "is_dict ?row"
      by (rule is_dict_record) (simp add: description_scriptrans_select_list distinct_target_fields)
    then have norm: "r = map normalise_item ?row"
      by (simp add: r items_loop_dict)
    have "keys r = keys ?row"
      by (simp add: r keys_def keys_items_loop)
    then have "keys r = target_fields"
      by (simp only: keys_of_record description_scriptrans_select_list)
    moreover have "getitem r k =
        map_option (\<lambda>v. if isinstance_date v then isoformat v else v) (getitem ?row k)" for k
      unfolding norm by (rule getitem_normalised)
    ultimately show "keys r = target_fields
           \<and> getitem r ''no_show_date'' = Some PNone
           \<and> getitem r ''preference_guest'' = Some PNone
           \<and> getitem r ''preference_reservation'' = Some PNone
           \<and> getitem r ''season'' = Some PNone"
      by (simp add: getitem_scriptrans_select_list)
  qed
  from extracted written show ?thesis
    by (simp add: length_target_fields distinct_target_fields)
qed

theorem record_field_set_witness:
  "snd (extract_data_from_postgres (accepting_env one_room_db) []) = Inr [sample_record]
   \<and> keys sample_record = target_fields
   \<and> getitem sample_record ''season'' = Some PNone
   \<and> getitem sample_record ''no_show_date'' = Some PNone
   \<and> length target_fields = 26"
proof -
  have ok: "snd (extract_data_from_postgres (accepting_env one_room_db) []) = Inr [sample_record]"
    by (rule extract_one_room_db)
  from record_field_set[of "accepting_env one_room_db" "[]" "[sample_record]"] ok
  show ?thesis by simp
qed

text \<open>
  C3, as the specification states it, fails on the number of fields: the record extracted
  from a database with one reservation-room has 26 keys, not 25, and so has the
  reference list of \<^verbatim>\<open>scriptrans.py\<close>.
\<close>

theorem record_has_25_fields_counterexample:
  "snd (extract_data_from_postgres (accepting_env one_room_db) []) = Inr [sample_record]
   \<and> length (keys sample_record) = 26
   \<and> length (keys sample_record) \<noteq> 25
   \<and> length target_fields \<noteq> 25"
  by (simp add: extract_one_room_db length_target_fields)
     (simp add: keys_def sample_record_def)

text \<open>
  C8. When the extraction succeeds, the records are in the order of the joined rows, and
  the \<^verbatim>\<open>occupancy\<close> of each record, before and after \<open>transform_data\<close>, is the integer sum
  of the adult, child and infant counts of the reservation-room of its joined row (null
  when a count is null); every joined row stems from a reservation-room of the table. A
  reservation-room with arrival 2024-03-01, departure 2024-03-05, 2 adults, 1 child and
  0 infants yields a transformed record with \<^verbatim>\<open>arrival_date\<close> \<^verbatim>\<open>"2024-03-01"\<close>, \<^verbatim>\<open>departure_date\<close>
  \<^verbatim>\<open>"2024-03-05"\<close> and \<^verbatim>\<open>occupancy\<close> 3. The documents \<^verbatim>\<open>scriptrans.py\<close> writes carry the same sum.
\<close>

theorem occupancy_is_sum_of_counts:
  assumes "snd (extract_data_from_postgres env tr) = Inr data"
  shows "length data = length (from_clause (source env))
       \<and> (\<forall>i<length data.
            getitem (data ! i) ''occupancy'' = Some (sum_of_counts (rr (from_clause (source env) ! i)))
            \<and> getitem (transform_data data ! i) ''occupancy''
                = Some (sum_of_counts (rr (from_clause (source env) ! i))))
       \<and> (\<forall>j\<in>set (from_clause (source env)). rr j \<in> set (reservation_rooms (source env)))
       \<and> (\<forall>r\<in>set (reservation_rooms (source env)).
            rr_arrival r = PDate \<lparr>year = 2024, month = 3, day = 1\<rparr>
            \<and> rr_departure r = PDate \<lparr>year = 2024, month = 3, day = 5\<rparr>
            \<and> rr_number_of_adult r = Some 2 \<and> rr_number_of_child r = Some 1 \<and> rr_inf r = Some 0 \<longrightarrow>
            (\<exists>d\<in>set (transform_data data).
               getitem d ''arrival_date'' = Some (PStr ''2024-03-01'')
               \<and> getitem d ''departure_date'' = Some (PStr ''2024-03-05'')
               \<and> getitem d ''occupancy'' = Some (PInt 3)))
       \<and> (InsertMany docs \<in> set (fst (scriptrans env)) \<longrightarrow>
            length docs = length (scriptrans_from_clause (source env))
            \<and> (\<forall>i<length docs.
                 getitem (docs ! i) ''occupancy''
                   = Some (sum_of_counts (rr (scriptrans_from_clause (source env) ! i)))))"
proof -
  let ?db = "source env"
  let ?rec = "\<lambda>j. map (\<lambda>c. (fst c, snd c ?db j)) select_list"
  have data: "data = map ?rec (from_clause ?db)"
    using assms by (rule extract_success)
  have dicts: "\<forall>r\<in>set data. is_dict r"
    unfolding data
    by (auto intro!: is_dict_record simp: description_select_list distinct_target_fields)
  have transformed: "transform_data data = map (map normalise_item) data"
    using dicts by (rule transform_data_map)
  have len: "length data = length (from_clause ?db)"
    by (simp add: data)
  have occ: "\<forall>i<length data.
            getitem (data ! i) ''occupancy'' = Some (sum_of_counts (rr (from_clause ?db ! i)))
            \<and> getitem (transform_data data ! i) ''occupancy''
                = Some (sum_of_counts (rr (from_clause ?db ! i)))"
  proof (intro allI impI)
    fix i
    assume i: "i < length data"
    then have at: "data ! i = ?rec (from_clause ?db ! i)"
      by (simp add: data)
    have before: "getitem (data ! i) ''occupancy'' = Some (sum_of_counts (rr (from_clause ?db ! i)))"
      unfolding at by (simp add: getitem_select_list occupancy_sum_of_counts)
    have "transform_data data ! i = map normalise_item (data ! i)"
      using i by (simp add: transformed)
    then have "getitem (transform_data data ! i) ''occupancy'' =
        map_option (\<lambda>v. if isinstance_date v then isoformat v else v)
          (getitem (data ! i) ''occupancy'')"
      by (simp only: getitem_normalised)
    with before show "getitem (data ! i) ''occupancy'' = Some (sum_of_counts (rr (from_clause ?db ! i)))
            \<and> getitem (transform_data data ! i) ''occupancy''
                = Some (sum_of_counts (rr (from_clause ?db ! i)))"
      by (simp add: not_date_sum_of_counts)
  qed
  have sound: "\<forall>j\<in>set (from_clause ?db). rr j \<in> set (reservation_rooms ?db)"
    by (simp add: from_clause_sound)
  have example: "\<forall>r\<in>set (reservation_rooms ?db).
            rr_arrival r = PDate \<lparr>year = 2024, month = 3, day = 1\<rparr>
            \<and> rr_departure r = PDate \<lparr>year = 2024, month = 3, day = 5\<rparr>
            \<and> rr_number_of_adult r = Some 2 \<and> rr_number_of_child r = Some 1 \<and> rr_inf r = Some 0 \<longrightarrow>
            (\<exists>d\<in>set (transform_data data).
               getitem d ''arrival_date'' = Some (PStr ''2024-03-01'')
               \<and> getitem d ''departure_date'' = Some (PStr ''2024-03-05'')
               \<and> getitem d ''occupancy'' = Some (PInt 3))"
  proof (intro ballI impI)
    fix r
    assume r: "r \<in> set (reservation_rooms ?db)"
      and ex: "rr_arrival r = PDate \<lparr>year = 2024, month = 3, day = 1\<rparr>
            \<and> rr_departure r = PDate \<lparr>year = 2024, month = 3, day = 5\<rparr>
            \<and> rr_number_of_adult r = Some 2 \<and> rr_number_of_child r = Some 1 \<and> rr_inf r = Some 0"
    from from_clause_complete[OF r] obtain j where j: "j \<in> set (from_clause ?db)" "rr j = r"
      by blast
    let ?d = "map normalise_item (?rec j)"
    from j(1) have "?rec j \<in> set data"
      unfolding data by (simp only: set_map) (rule imageI)
    then have "?d \<in> set (map (map normalise_item) data)"
      by (simp only: set_map) (rule imageI)
    then have mem: "?d \<in> set (transform_data data)"
      by (simp only: transformed)
    have get: "getitem ?d k =
        map_option (\<lambda>v. if isinstance_date v then isoformat v else v) (getitem (?rec j) k)" for k
      by (rule getitem_normalised)
    have "getitem ?d ''arrival_date'' = Some (PStr ''2024-03-01'')"
      unfolding get using ex j(2)
      by (simp add: getitem_select_list iso_2024_03_01 del: One_nat_def)
    moreover have "getitem ?d ''departure_date'' = Some (PStr ''2024-03-05'')"
      unfolding get using ex j(2)
      by (simp add: getitem_select_list iso_2024_03_05)
    moreover have "getitem ?d ''occupancy'' = Some (PInt 3)"
      unfolding get using ex j(2)
      by (simp add: getitem_select_list occupancy_def)
    ultimately show "\<exists>d\<in>set (transform_data data).
               getitem d ''arrival_date'' = Some (PStr ''2024-03-01'')
               \<and> getitem d ''departure_date'' = Some (PStr ''2024-03-05'')
               \<and> getitem d ''occupancy'' = Some (PInt 3)"
      using mem by blast
  qed
  have script: "InsertMany docs \<in> set (fst (scriptrans env)) \<longrightarrow>
            length docs = length (scriptrans_from_clause ?db)
            \<and> (\<forall>i<length docs.
                 getitem (docs ! i) ''occupancy''
                   = Some (sum_of_counts (rr (scriptrans_from_clause ?db ! i))))"
  proof (intro impI conjI allI)
    assume ins: "InsertMany docs \<in> set (fst (scriptrans env))"
    let ?srec = "\<lambda>j. map (\<lambda>c. (fst c, snd c ?db j)) scriptrans_select_list"
    have docs: "docs = map (items_loop 0) (map ?srec (scriptrans_from_clause ?db))"
      using ins by (rule scriptrans_inserted)
    then show "length docs = length (scriptrans_from_clause ?db)" by simp
    fix i
    assume i: "i < length docs"
    have "is_dict (?srec (scriptrans_from_clause ?db ! i))"
      by (rule is_dict_record) (simp add: description_scriptrans_select_list distinct_target_fields)
    then have "docs ! i = map normalise_item (?srec (scriptrans_from_clause ?db ! i))"
      using i by (simp add: docs items_loop_dict)
    then have "getitem (docs ! i) ''occupancy'' =
        map_option (\<lambda>v. if isinstance_date v then isoformat v else v)
          (getitem (?srec (scriptrans_from_clause ?db ! i)) ''occupancy'')"
      by (simp only: getitem_normalised)
    then show "getitem (docs ! i) ''occupancy''
                   = Some (sum_of_counts (rr (scriptrans_from_clause ?db ! i)))"
      by (simp add: getitem_scriptrans_select_list occupancy_sum_of_counts not_date_sum_of_counts)
  qed
  from len occ sound example script show ?thesis by blast
qed

theorem occupancy_is_sum_of_counts_witness:
  "snd (extract_data_from_postgres (accepting_env one_room_db) []) = Inr [sample_record]
   \<and> sample_room \<in> set (reservation_rooms one_room_db)
   \<and> from_clause one_room_db = [sample_joined_row]
   \<and> sum_of_counts (rr sample_joined_row) = PInt 3
   \<and> getitem sample_record ''occupancy'' = Some (PInt 3)
   \<and> transform_data [sample_record] = [sample_document]
   \<and> getitem sample_document ''arrival_date'' = Some (PStr ''2024-03-01'')
   \<and> getitem sample_document ''departure_date'' = Some (PStr ''2024-03-05'')
   \<and> getitem sample_document ''occupancy'' = Some (PInt 3)"
proof -
  have ok: "snd (extract_data_from_postgres (accepting_env one_room_db) []) = Inr [sample_record]"
    by (rule extract_one_room_db)
  have src: "source (accepting_env one_room_db) = one_room_db"
    by (simp add: accepting_env_def)
  have room: "sample_room \<in> set (reservation_rooms one_room_db)"
    by (simp add: one_room_db_def)
  have sum: "sum_of_counts (rr sample_joined_row) = PInt 3"
    by (simp add: sum_of_counts_def sample_joined_row_def sample_room_def)
  have doc: "getitem sample_document ''arrival_date'' = Some (PStr ''2024-03-01'')"
      "getitem sample_document ''departure_date'' = Some (PStr ''2024-03-05'')"
      "getitem sample_document ''occupancy'' = Some (PInt 3)"
    by (simp_all add: getitem_def sample_document_def)
  from occupancy_is_sum_of_counts[OF ok] have "getitem ([sample_record] ! 0) ''occupancy''
      = Some (sum_of_counts (rr (from_clause (source (accepting_env one_room_db)) ! 0)))"
    by simp
  then have "getitem sample_record ''occupancy'' = Some (PInt 3)"
    by (simp add: src from_clause_one_room_db sum)
  with ok room sum doc show ?thesis
    by (simp add: from_clause_one_room_db transform_sample_record)
qed

text \<open>
  C9. In the query of \<^verbatim>\<open>extract_data_from_postgres\<close> (the variant with the correlated
  subqueries), the \<^verbatim>\<open>preview_cancelled\<close> and \<^verbatim>\<open>cancelled_date\<close> of each record are the two
  subqueries evaluated for the reservation-room of its joined row. When the identifiers
  of the table of reservation states are all different (it is the key of the table),
  \<^verbatim>\<open>preview_cancelled\<close> is the number of reservation-rooms of the whole table that share the
  master guest of that reservation-room and whose state matches the cancelled state.
  \<^verbatim>\<open>cancelled_date\<close> is null when no cancelled state with a timestamp was recorded for that
  reservation-room, and otherwise one of these timestamps that no other one precedes.
\<close>

theorem cancellation_subqueries:
  "(distinct (map st_id (reservation_states db)) \<longrightarrow>
      preview_cancelled db r = PInt (int (cancelled_rooms_of_guest db r)))
   \<and> (cancellation_times db r = [] \<longrightarrow> cancelled_date db r = PNone)
   \<and> (cancellation_times db r \<noteq> [] \<longrightarrow>
        (\<exists>t\<in>set (cancellation_times db r). cancelled_date db r = PDateTime t
           \<and> (\<forall>t'\<in>set (cancellation_times db r). datetime_fields t \<le> datetime_fields t')))
   \<and> (snd (extract_data_from_postgres env tr) = Inr data \<longrightarrow>
        length data = length (from_clause (source env))
        \<and> (\<forall>i<length data.
             getitem (data ! i) ''preview_cancelled''
               = Some (preview_cancelled (source env) (rr (from_clause (source env) ! i)))
             \<and> getitem (data ! i) ''cancelled_date''
               = Some (cancelled_date (source env) (rr (from_clause (source env) ! i)))))"
proof -
  have fields: "snd (extract_data_from_postgres env tr) = Inr data \<longrightarrow>
        length data = length (from_clause (source env))
        \<and> (\<forall>i<length data.
             getitem (data ! i) ''preview_cancelled''
               = Some (preview_cancelled (source env) (rr (from_clause (source env) ! i)))
             \<and> getitem (data ! i) ''cancelled_date''
               = Some (cancelled_date (source env) (rr (from_clause (source env) ! i))))"
  proof
    assume "snd (extract_data_from_postgres env tr) = Inr data"
    then have data: "data = map (\<lambda>j. map (\<lambda>c. (fst c, snd c (source env) j)) select_list)
        (from_clause (source env))"
      by (rule extract_success)
    show "length data = length (from_clause (source env))
        \<and> (\<forall>i<length data.
             getitem (data ! i) ''preview_cancelled''
               = Some (preview_cancelled (source env) (rr (from_clause (source env) ! i)))
             \<and> getitem (data ! i) ''cancelled_date''
               = Some (cancelled_date (source env) (rr (from_clause (source env) ! i))))"
      unfolding data by (simp add: getitem_select_list)
  qed
  from fields show ?thesis
    by (simp add: preview_cancelled_count cancelled_date_none cancelled_date_earliest)
qed

theorem cancellation_subqueries_witness:
  "distinct (map st_id (reservation_states sample_db))
   \<and> cancelled_rooms_of_guest sample_db sample_room = 2
   \<and> preview_cancelled sample_db sample_room = PInt 2
   \<and> cancellation_times sample_db sample_room =
       [\<lparr>dt_year = 2024, dt_month = 2, dt_day = 20, dt_hour = 10, dt_minute = 0, dt_second = 0,
          dt_microsecond = 0\<rparr>,
        \<lparr>dt_year = 2024, dt_month = 2, dt_day = 18, dt_hour = 8, dt_minute = 0, dt_second = 0,
          dt_microsecond = 0\<rparr>]
   \<and> cancelled_date sample_db sample_room =
       PDateTime \<lparr>dt_year = 2024, dt_month = 2, dt_day = 18, dt_hour = 8, dt_minute = 0,
          dt_second = 0, dt_microsecond = 0\<rparr>"
proof -
  let ?t20 = "\<lparr>dt_year = 2024, dt_month = 2, dt_day = 20, dt_hour = 10, dt_minute = 0,
      dt_second = 0, dt_microsecond = 0\<rparr>"
  let ?t18 = "\<lparr>dt_year = 2024, dt_month = 2, dt_day = 18, dt_hour = 8, dt_minute = 0,
      dt_second = 0, dt_microsecond = 0\<rparr>"
  have key: "distinct (map st_id (reservation_states sample_db))"
    by (simp add: sample_db_def)
  have count: "cancelled_rooms_of_guest sample_db sample_room = 2"
    by code_simp
  have times: "cancellation_times sample_db sample_room = [?t20, ?t18]"
    by code_simp
  have later: "\<not> datetime_fields ?t20 \<le> datetime_fields ?t18"
    by (simp add: datetime_fields_def)
  note at_sample =
    cancellation_subqueries[of sample_db sample_room "accepting_env sample_db" "[]" "[]"]
  from at_sample
  have "distinct (map st_id (reservation_states sample_db)) \<longrightarrow>
      preview_cancelled sample_db sample_room = PInt (int (cancelled_rooms_of_guest sample_db sample_room))"
    by (rule conjunct1)
  with key count have a: "preview_cancelled sample_db sample_room = PInt 2"
    by simp
  from at_sample
  have "cancellation_times sample_db sample_room \<noteq> [] \<longrightarrow>
        (\<exists>t\<in>set (cancellation_times sample_db sample_room).
           cancelled_date sample_db sample_room = PDateTime t
           \<and> (\<forall>t'\<in>set (cancellation_times sample_db sample_room).
                 datetime_fields t \<le> datetime_fields t'))"
    by (rule conjunct2[THEN conjunct2, THEN conjunct1])
  then obtain t where "t = ?t20 \<or> t = ?t18"
      "cancelled_date sample_db sample_room = PDateTime t"
      "datetime_fields t \<le> datetime_fields ?t18"
    unfolding times by auto
  with later have b: "cancelled_date sample_db sample_room = PDateTime ?t18"
    by blast
  from key count times a b show ?thesis by simp
qed

end
